theory Spec2Isabelle
  imports Main "HOL-Library.Word"
begin

section \<open>Data model\<close>

text \<open>
  The consensus engine of the repository (package \<open>consensus\<close>: the engine file with
  \<open>VerifyHeader\<close>, \<open>VerifySeal\<close>, \<open>Finalize\<close>, \<open>SealHash\<close>, and \<open>dos.go\<close>,
  \<open>masternode.go\<close>) is embedded function by function.  Go's \<open>uint64\<close> is \<open>64 word\<close>, so
  that \<open>+\<close> and \<open>-\<close> wrap around as in the source; \<open>*big.Int\<close> is \<open>int\<close>; fixed byte arrays
  (\<open>common.Hash\<close>, \<open>common.Address\<close>) are words of their width; byte slices are lists.
\<close>

type_synonym uint64 = "64 word"
type_synonym byte = "8 word"
type_synonym hash = "256 word"
type_synonym address = "160 word"
type_synonym bloom = "2048 word"

text \<open>\<open>types.Header\<close>, with the 65-byte PoS signature appended.\<close>

record header =
  ParentHash :: hash
  UncleHash :: hash
  Coinbase :: address
  Root :: hash
  TxHash :: hash
  ReceiptHash :: hash
  Bloom :: bloom
  Difficulty :: int
  Number :: int
  GasLimit :: uint64
  GasUsed :: uint64
  Time :: uint64
  Extra :: "byte list"
  MixDigest :: hash
  Nonce :: uint64
  Signature :: "byte list"

text \<open>\<open>(*big.Int).Uint64()\<close>: the low 64 bits of the absolute value.\<close>

definition Uint64 :: "int \<Rightarrow> uint64" where
  "Uint64 n = word_of_int \<bar>n\<bar>"

text \<open>
  Errors of the engine.  The constructors carry the values the source formats into the
  message.  An error that an external collaborator hands back is surfaced verbatim; those
  collaborators return values of this type too (\<open>ExternalError\<close> for any other error).
\<close>

datatype error =
    ErrExtraDataTooLong nat uint64
  | ErrInvalidMigration
  | ErrUnknownAncestor
  | ErrInvalidModifier hash hash
  | ErrInvalidDifficulty int int
  | ErrGasLimitAboveCap uint64 uint64
  | ErrInvalidGasUsed uint64 uint64
  | ErrInvalidGasLimit uint64 uint64 uint64
  | ErrGasLimitBelowMin uint64 uint64
  | ErrInvalidNumber
  | ErrMissingState
  | errBlacklistedCoinbase
  | errMissingSig
  | errInvalidSig
  | ErrInvalidSig
  | ErrDoSThrottle
  | ErrInvalidConsensusTx
  | ExternalError string

text \<open>A Go panic (nil dereference, slice bounds) is an outcome of its own.\<close>

datatype 'a outcome = Panics | Returns 'a

subsection \<open>Chain parameters\<close>

text \<open>
  The constants of the packages \<open>params\<close> and \<open>energi_params\<close> that the engine reads are
  declared outside the consensus package; they are parameters of the model.
\<close>

record params =
  MaximumExtraDataSize :: uint64
  MinGasLimit :: uint64
  GasLimitBoundDivisor :: uint64
  StakeThrottle :: uint64
  OldForkPeriod :: uint64

definition Nuclear_SporkRegistry :: address where
  "Nuclear_SporkRegistry = 0x305"

definition Nuclear_MasternodeRegistry :: address where
  "Nuclear_MasternodeRegistry = 0x302"

definition Nuclear_MigrationContract :: address where
  "Nuclear_MigrationContract = 0x308"

definition Nuclear_MasternodeList :: address where
  "Nuclear_MasternodeList = 0x30C"

definition Nuclear_SystemFaucet :: address where
  "Nuclear_SystemFaucet = 0x320"

definition sealLen :: nat where
  "sealLen = 65"

subsection \<open>The state database\<close>

record account =
  acc_nonce :: uint64
  acc_balance :: nat
  acc_code :: "byte list"
  acc_storage :: "hash \<Rightarrow> hash"

type_synonym world = "address \<Rightarrow> account option"

text \<open>
  Modelled from the spec: \<open>state.StateDB\<close> (package \<open>core/state\<close>, outside the
  consensus package).  The content is the account map; \<open>Snapshot\<close> records the current content
  and returns the identifier of the revision, \<open>RevertToSnapshot\<close> restores the content
  recorded under an identifier and forgets that revision and every later one, and panics
  on an identifier that is not valid.  \<open>Prepare\<close> sets the transaction hash, block hash
  and transaction index used when logs are emitted.
\<close>

record statedb =
  accounts :: world
  revisions :: "world list"
  thash :: hash
  bhash :: hash
  txIndex :: nat

definition Snapshot :: "statedb \<Rightarrow> nat \<times> statedb" where
  "Snapshot s = (length (revisions s), s\<lparr>revisions := revisions s @ [accounts s]\<rparr>)"

definition RevertToSnapshot :: "statedb \<Rightarrow> nat \<Rightarrow> statedb outcome" where
  "RevertToSnapshot s revid =
     (if revid < length (revisions s)
      then Returns (s\<lparr>accounts := revisions s ! revid, revisions := take revid (revisions s)\<rparr>)
      else Panics)"

definition Prepare :: "statedb \<Rightarrow> hash \<Rightarrow> hash \<Rightarrow> nat \<Rightarrow> statedb" where
  "Prepare s th bh ti = s\<lparr>thash := th, bhash := bh, txIndex := ti\<rparr>"

definition GetCodeSize :: "statedb \<Rightarrow> address \<Rightarrow> nat" where
  "GetCodeSize s a = (case accounts s a of None \<Rightarrow> 0 | Some acc \<Rightarrow> length (acc_code acc))"

subsection \<open>The chain reader\<close>

text \<open>
  The \<open>ChainReader\<close> capability set: header lookup by hash and number, the current head,
  the state at a block (\<open>None\<close> is Go's nil) and the fork switch of the chain config.
\<close>

record chain =
  GetHeader :: "hash \<Rightarrow> uint64 \<Rightarrow> header option"
  CurrentHeader :: header
  CalculateBlockState :: "hash \<Rightarrow> uint64 \<Rightarrow> statedb option"
  IsEIP158 :: "int \<Rightarrow> bool"

subsection \<open>The engine\<close>

record KnownStakeKey =
  coinbase :: address
  parent :: hash

record KnownStakeValue =
  block :: hash
  ts :: uint64

text \<open>
  \<open>KnownStakes\<close> is a \<open>sync.Map\<close>; the model is sequential, one call at a time.  The engine's
  \<open>now\<close> is an injectable \<open>func() uint64\<close>: the model keeps the readings it will give, by
  call number, and the number of calls made so far.  \<open>txhashMap\<close> is the LRU cache of
  capacity 8, most recently used first.
\<close>

record engine =
  nonceCap :: uint64
  systemFaucet :: address
  xferGas :: uint64
  callGas :: uint64
  unlimitedGas :: uint64
  clock :: "nat \<Rightarrow> uint64"
  clock_reads :: nat
  knownStakes :: "KnownStakeKey \<Rightarrow> KnownStakeValue option"
  nextKSPurge :: uint64
  txhashMap :: "(hash \<times> hash) list"

definition now :: "engine \<Rightarrow> uint64 \<times> engine" where
  "now e = (clock e (clock_reads e), e\<lparr>clock_reads := Suc (clock_reads e)\<rparr>)"

section \<open>DoS guard (dos.go)\<close>

definition isActive :: "params \<Rightarrow> KnownStakeValue \<Rightarrow> uint64 \<Rightarrow> bool" where
  "isActive P ksv t = ((t - ts ksv) < StakeThrottle P)"

text \<open>\<open>sync.Map.LoadOrStore\<close>: the map afterwards, the value now stored, and whether it was loaded.\<close>

definition LoadOrStore ::
  "('k \<Rightarrow> 'v option) \<Rightarrow> 'k \<Rightarrow> 'v \<Rightarrow> ('k \<Rightarrow> 'v option) \<times> 'v \<times> bool" where
  "LoadOrStore m k v = (case m k of Some p \<Rightarrow> (m, p, True) | None \<Rightarrow> (m(k \<mapsto> v), v, False))"

text \<open>The \<open>Range\<close> sweep of the purge: every entry that is not active is deleted.\<close>

definition purgeKnownStakes ::
  "params \<Rightarrow> uint64 \<Rightarrow> (KnownStakeKey \<Rightarrow> KnownStakeValue option) \<Rightarrow> (KnownStakeKey \<Rightarrow> KnownStakeValue option)" where
  "purgeKnownStakes P t m =
     (\<lambda>k. case m k of None \<Rightarrow> None | Some v \<Rightarrow> if \<not> isActive P v t then None else Some v)"

text \<open>
  \<open>checkDoS\<close>, in its two rules.  \<open>hdr_hash\<close> is \<open>header.Hash()\<close>, computed by the \<open>types\<close>
  package.  The result is the error (\<open>None\<close> is nil) and the engine afterwards.
  \<open>stakeThrottle\<close> is the second half of the function body (POS-9 and the purge), entered
  with the engine as the first half leaves it.
\<close>

definition stakeThrottle ::
  "params \<Rightarrow> (header \<Rightarrow> hash) \<Rightarrow> engine \<Rightarrow> header \<Rightarrow> error option \<times> engine" where
  "stakeThrottle P hdr_hash e1 hdr =
     (let (t, e2) = now e1;
          ksk = \<lparr>coinbase = Coinbase hdr, parent = ParentHash hdr\<rparr>;
          ksv = \<lparr>block = hdr_hash hdr, ts = t\<rparr>;
          (m1, prev_ksv, ok) = LoadOrStore (knownStakes e2) ksk ksv
      in if ok \<and> isActive P prev_ksv t \<and> block prev_ksv \<noteq> block ksv
         then (Some ErrDoSThrottle, e2\<lparr>knownStakes := m1\<rparr>)
         else
          (let m2 = (if ok then m1(ksk \<mapsto> ksv) else m1);
               e3 = e2\<lparr>knownStakes := m2\<rparr>
           in if nextKSPurge e3 < t
              then (None, e3\<lparr>nextKSPurge := t + StakeThrottle P,
                             knownStakes := purgeKnownStakes P t m2\<rparr>)
              else (None, e3)))"

definition checkDoS ::
  "params \<Rightarrow> (header \<Rightarrow> hash) \<Rightarrow> engine \<Rightarrow> chain \<Rightarrow> header \<Rightarrow> header \<Rightarrow> error option \<times> engine" where
  "checkDoS P hdr_hash e ch hdr par =
     (let (t0, e1) = now e;
          old_fork_threshold = t0 - OldForkPeriod P
      in if Time par < old_fork_threshold \<and> Time (CurrentHeader ch) > old_fork_threshold
         then (Some ErrDoSThrottle, e1)
         else stakeThrottle P hdr_hash e1 hdr)"

section \<open>Transactions, blocks and EVM messages\<close>

text \<open>
  \<open>types.Transaction\<close> as the engine observes it: its \<open>Hash()\<close> and its \<open>IsConsensus()\<close>.
\<close>

record tx =
  tx_Hash :: hash
  tx_IsConsensus :: bool
  tx_payload :: "byte list"

record receipt =
  rc_CumulativeGasUsed :: uint64
  rc_TxHash :: hash

record block_t =
  blk_header :: header
  blk_transactions :: "tx list"
  blk_uncles :: "header list"

record seal_result =
  sr_Block :: "block_t option"
  sr_State :: "statedb option"
  sr_Receipts :: "receipt list"

definition NewSealResult :: "block_t option \<Rightarrow> statedb option \<Rightarrow> receipt list \<Rightarrow> seal_result" where
  "NewSealResult b s rs = \<lparr>sr_Block = b, sr_State = s, sr_Receipts = rs\<rparr>"

record message =
  msg_from :: address
  msg_to :: "address option"
  msg_nonce :: uint64
  msg_amount :: int
  msg_gasLimit :: uint64
  msg_gasPrice :: int
  msg_data :: "byte list"
  msg_checkNonce :: bool

definition NewMessage ::
  "address \<Rightarrow> address option \<Rightarrow> uint64 \<Rightarrow> int \<Rightarrow> uint64 \<Rightarrow> int \<Rightarrow> byte list \<Rightarrow> bool \<Rightarrow> message" where
  "NewMessage f t n a gl gpr d c =
     \<lparr>msg_from = f, msg_to = t, msg_nonce = n, msg_amount = a, msg_gasLimit = gl,
      msg_gasPrice = gpr, msg_data = d, msg_checkNonce = c\<rparr>"

text \<open>The EVM context that \<open>createEVM\<close> builds: the state database is passed beside it.\<close>

record evm =
  evm_msg :: message
  evm_header :: header
  evm_author :: address
  evm_GasLimit :: uint64

record call_result =
  cr_output :: "byte list"
  cr_gas_used :: uint64
  cr_failed :: bool
  cr_err :: "error option"

text \<open>The values that the two signing hashes hand to the RLP encoder.\<close>

datatype rlp =
    RlpHash hash
  | RlpAddress address
  | RlpBloom bloom
  | RlpBig int
  | RlpUint uint64
  | RlpBytes "byte list"

section \<open>External collaborators\<close>

text \<open>
  What the engine calls and the consensus files embedded here do not define: header predicates of
  \<open>types\<close>, the time-target, modifier and difficulty functions and the hash-of-stake check of
  the engine, \<open>misc.VerifyForkHashes\<close>, \<open>core.IsBlacklisted\<close>, the \<open>crypto\<close>, \<open>rlp\<close> and
  \<open>abi\<close> primitives, the EVM (\<open>core.ApplyMessage\<close>, \<open>core.ApplyTransaction\<close>), the state
  root, and the finalisation steps other than the two that are defined here.  They are
  parameters: every theorem holds for each choice of them.  \<open>'tt\<close> is the type of time
  targets.

  \<open>ApplyMessage\<close> acts on the content of the state database: whatever snapshots the EVM
  takes for its own calls are released inside the call.  \<open>rlpEncode\<close> gives \<open>None\<close> when the
  encoder returns an error, in which case nothing is written to the hasher.
\<close>

record 'tt ext =
  IsGen2Migration :: "header \<Rightarrow> bool"
  HeaderHash :: "header \<Rightarrow> hash"
  calcTimeTarget :: "engine \<Rightarrow> chain \<Rightarrow> header \<Rightarrow> 'tt"
  checkTime :: "engine \<Rightarrow> header \<Rightarrow> 'tt \<Rightarrow> error option"
  calcPoSModifier :: "engine \<Rightarrow> chain \<Rightarrow> uint64 \<Rightarrow> header \<Rightarrow> hash"
  calcPoSDifficulty :: "engine \<Rightarrow> chain \<Rightarrow> uint64 \<Rightarrow> header \<Rightarrow> 'tt \<Rightarrow> int"
  verifyPoSHash :: "engine \<Rightarrow> chain \<Rightarrow> header \<Rightarrow> error option"
  VerifyForkHashes :: "chain \<Rightarrow> header \<Rightarrow> bool \<Rightarrow> error option"
  IsBlacklisted :: "statedb \<Rightarrow> address \<Rightarrow> bool"
  ValidateSignatureValues :: "byte \<Rightarrow> int \<Rightarrow> int \<Rightarrow> bool \<Rightarrow> bool"
  Ecrecover :: "byte list \<Rightarrow> byte list \<Rightarrow> error + byte list"
  Keccak256 :: "byte list \<Rightarrow> hash"
  rlpEncode :: "rlp list \<Rightarrow> byte list option"
  CalcUncleHash :: "header list \<Rightarrow> hash"
  abiPack :: "string \<Rightarrow> error + byte list"
  UnpackSignerAddress :: "byte list \<Rightarrow> error + address"
  UnpackConsensusGasLimits :: "byte list \<Rightarrow> error + (int \<times> int)"
  UnpackEnumerateActive :: "byte list \<Rightarrow> error + address list"
  applyMessage :: "evm \<Rightarrow> message \<Rightarrow> uint64 \<Rightarrow> world \<Rightarrow> call_result \<times> world"
  ApplyTransaction ::
    "chain \<Rightarrow> uint64 \<Rightarrow> statedb \<Rightarrow> header \<Rightarrow> tx \<Rightarrow> uint64 \<Rightarrow>
       (error + receipt) \<times> uint64 \<times> statedb \<times> uint64"
  IntermediateRoot :: "bool \<Rightarrow> statedb \<Rightarrow> hash \<times> statedb"
  processBlockRewards ::
    "engine \<Rightarrow> chain \<Rightarrow> header \<Rightarrow> statedb \<Rightarrow> tx list \<Rightarrow> receipt list \<Rightarrow>
       tx list \<times> receipt list \<times> error option \<times> statedb"
  processBlacklists :: "engine \<Rightarrow> chain \<Rightarrow> header \<Rightarrow> statedb \<Rightarrow> error option \<times> statedb"
  processDrainable ::
    "engine \<Rightarrow> chain \<Rightarrow> header \<Rightarrow> statedb \<Rightarrow> tx list \<Rightarrow> receipt list \<Rightarrow>
       tx list \<times> receipt list \<times> error option \<times> statedb"
  finalizeMigration ::
    "engine \<Rightarrow> chain \<Rightarrow> header \<Rightarrow> statedb \<Rightarrow> tx list \<Rightarrow> error option \<times> statedb"
  NewBlockHeader :: "header \<Rightarrow> tx list \<Rightarrow> header list \<Rightarrow> receipt list \<Rightarrow> header"

text \<open>
  Modelled from the spec: \<open>types.NewBlock\<close> (package \<open>core/types\<close>, outside the consensus
  package) assembles the block from a copy of the header, in which the transactions root,
  receipts root, bloom and uncle hash are derived from the given lists (\<open>NewBlockHeader\<close>),
  and from the given transactions and uncles.
\<close>

definition NewBlock :: "'tt ext \<Rightarrow> header \<Rightarrow> tx list \<Rightarrow> header list \<Rightarrow> receipt list \<Rightarrow> block_t" where
  "NewBlock X h txs uncles receipts =
     \<lparr>blk_header = NewBlockHeader X h txs uncles receipts, blk_transactions = txs,
      blk_uncles = uncles\<rparr>"

definition uncleHash :: "'tt ext \<Rightarrow> hash" where
  "uncleHash X = CalcUncleHash X []"

section \<open>Signing hashes\<close>

text \<open>
  Modelled from the spec: the bounded LRU cache behind \<open>txhashMap\<close> (an external library),
  a list with the most recently used entry first.  \<open>Get\<close> returns the value stored under
  the key, if any, and moves that entry to the front.
\<close>

definition lru_Get :: "('k \<times> 'v) list \<Rightarrow> 'k \<Rightarrow> 'v option \<times> ('k \<times> 'v) list" where
  "lru_Get c k =
     (case map_of c k of
        None \<Rightarrow> (None, c)
      | Some v \<Rightarrow> (Some v, (k, v) # filter (\<lambda>kv. fst kv \<noteq> k) c))"

text \<open>What reaches the hasher: the encoding, or nothing when the encoder failed.\<close>

definition written :: "byte list option \<Rightarrow> byte list" where
  "written r = (case r of None \<Rightarrow> [] | Some bs \<Rightarrow> bs)"

text \<open>\<open>SealHash\<close>: the hash, and the engine with the cache as the lookup leaves it.\<close>

definition SealHash :: "'tt ext \<Rightarrow> engine \<Rightarrow> header \<Rightarrow> hash \<times> engine" where
  "SealHash X e h =
     (let (item, c) = lru_Get (txhashMap e) (TxHash h);
          txhash = (case item of Some v \<Rightarrow> v | None \<Rightarrow> TxHash h)
      in (Keccak256 X (written (rlpEncode X
            [RlpHash (ParentHash h), RlpHash (UncleHash h), RlpHash txhash,
             RlpBig (Number h), RlpUint (GasLimit h)])),
          e\<lparr>txhashMap := c\<rparr>))"

definition SignatureHash :: "'tt ext \<Rightarrow> header \<Rightarrow> hash" where
  "SignatureHash X h =
     Keccak256 X (written (rlpEncode X
       [RlpHash (ParentHash h), RlpHash (UncleHash h), RlpAddress (Coinbase h),
        RlpHash (Root h), RlpHash (TxHash h), RlpHash (ReceiptHash h), RlpBloom (Bloom h),
        RlpBig (Difficulty h), RlpBig (Number h), RlpUint (GasLimit h), RlpUint (GasUsed h),
        RlpUint (Time h), RlpBytes (Extra h), RlpHash (MixDigest h), RlpUint (Nonce h)]))"

section \<open>EVM invoker\<close>

definition createEVM :: "engine \<Rightarrow> message \<Rightarrow> header \<Rightarrow> evm" where
  "createEVM e msg h =
     \<lparr>evm_msg = msg, evm_header = h, evm_author = Coinbase h, evm_GasLimit = xferGas e\<rparr>"

definition ApplyMessage ::
  "'tt ext \<Rightarrow> evm \<Rightarrow> message \<Rightarrow> uint64 \<Rightarrow> statedb \<Rightarrow> call_result \<times> statedb" where
  "ApplyMessage X vm msg gp s =
     (let (res, w) = applyMessage X vm msg gp (accounts s) in (res, s\<lparr>accounts := w\<rparr>))"

section \<open>Seal verifier\<close>

text \<open>\<open>(*big.Int).SetBytes\<close>: the big-endian value of a byte slice.\<close>

definition SetBytes :: "byte list \<Rightarrow> int" where
  "SetBytes bs = foldl (\<lambda>a b. a * 256 + uint b) 0 bs"

text \<open>\<open>common.Hash.Bytes()\<close>: the 32 bytes of a hash, most significant first.\<close>

definition hashBytes :: "hash \<Rightarrow> byte list" where
  "hashBytes h = map (\<lambda>i. ucast (drop_bit (8 * (31 - i)) h)) [0..<32]"

text \<open>
  \<open>VerifySeal\<close>.  The address recovered is the last 20 bytes of the Keccak-256 of the public
  key without its first byte: the low 160 bits of the hash.  The state calculated at the
  parent is local to the call, so only the error is returned.
\<close>

definition VerifySeal :: "'tt ext \<Rightarrow> engine \<Rightarrow> chain \<Rightarrow> header \<Rightarrow> error option outcome" where
  "VerifySeal X e ch hdr =
     (let parent_number = Uint64 (Number hdr) - 1 in
      case CalculateBlockState ch (ParentHash hdr) parent_number of
        None \<Rightarrow> Returns (Some ErrMissingState)
      | Some blockst \<Rightarrow>
          if IsBlacklisted X blockst (Coinbase hdr) then Returns (Some errBlacklistedCoinbase)
          else if length (Signature hdr) \<noteq> sealLen then Returns (Some errMissingSig)
          else
           (let sighash = SignatureHash X hdr;
                r = SetBytes (take 32 (Signature hdr));
                s = SetBytes (take 32 (drop 32 (Signature hdr)));
                v = Signature hdr ! 64
            in if \<not> ValidateSignatureValues X v r s True then Returns (Some ErrInvalidSig)
               else
                (case Ecrecover X (hashBytes sighash) (Signature hdr) of
                   Inl err \<Rightarrow> Returns (Some err)
                 | Inr pubkey \<Rightarrow>
                    (let addr = (ucast (Keccak256 X (drop 1 pubkey)) :: address) in
                     if addr \<noteq> Coinbase hdr then
                       (case GetHeader ch (ParentHash hdr) parent_number of
                          None \<Rightarrow> Returns (Some ErrUnknownAncestor)
                        | Some par \<Rightarrow>
                           if GetCodeSize blockst (Coinbase hdr) > 0 then
                             (case abiPack X ''signerAddress'' of
                                Inl err \<Rightarrow> Returns (Some err)
                              | Inr signerData \<Rightarrow>
                                 (let msg = NewMessage (systemFaucet e) (Some (Coinbase hdr)) 0 0
                                              (callGas e) 0 signerData False;
                                      (rev_id, st1) = Snapshot blockst;
                                      vm = createEVM e msg par;
                                      gp = callGas e;
                                      (res, st2) = ApplyMessage X vm msg gp st1
                                  in case RevertToSnapshot st2 rev_id of
                                       Panics \<Rightarrow> Panics
                                     | Returns st3 \<Rightarrow>
                                        (case cr_err res of
                                           Some err \<Rightarrow> Returns (Some err)
                                         | None \<Rightarrow>
                                            (case UnpackSignerAddress X (cr_output res) of
                                               Inl err \<Rightarrow> Returns (Some err)
                                             | Inr signer \<Rightarrow>
                                                if signer = addr then Returns None
                                                else Returns (Some errInvalidSig)))))
                           else Returns (Some errInvalidSig))
                     else Returns None))))"

section \<open>Header verifier\<close>

text \<open>
  The gas-limit distance as the source computes it: the difference of the two limits read
  as \<open>int64\<close>, negated when negative, read back as \<open>uint64\<close>.
\<close>

definition gasLimitDiff :: "uint64 \<Rightarrow> uint64 \<Rightarrow> uint64" where
  "gasLimitDiff pgl hgl = (let diff = pgl - hgl in if sint diff < 0 then diff * (- 1) else diff)"

text \<open>\<open>VerifyHeader\<close>: the error and the engine afterwards (only \<open>checkDoS\<close> changes it).\<close>

definition VerifyHeader ::
  "params \<Rightarrow> 'tt ext \<Rightarrow> engine \<Rightarrow> chain \<Rightarrow> header \<Rightarrow> bool \<Rightarrow> (error option \<times> engine) outcome" where
  "VerifyHeader P X e ch hdr seal =
     (let is_migration = IsGen2Migration X hdr in
      if of_nat (length (Extra hdr)) > MaximumExtraDataSize P \<and> \<not> is_migration
      then Returns (Some (ErrExtraDataTooLong (length (Extra hdr)) (MaximumExtraDataSize P)), e)
      else if is_migration \<and> Coinbase hdr \<noteq> Nuclear_MigrationContract
      then Returns (Some ErrInvalidMigration, e)
      else
       (case GetHeader ch (ParentHash hdr) (Uint64 (Number hdr) - 1) of
          None \<Rightarrow>
            if Number hdr \<noteq> 0 then Returns (Some ErrUnknownAncestor, e) else Returns (None, e)
        | Some par \<Rightarrow>
           (let time_target = calcTimeTarget X e ch par in
            case checkTime X e hdr time_target of
              Some err \<Rightarrow> Returns (Some err, e)
            | None \<Rightarrow>
               (let modifier = calcPoSModifier X e ch (Time hdr) par in
                if MixDigest hdr \<noteq> modifier
                then Returns (Some (ErrInvalidModifier (MixDigest hdr) modifier), e)
                else
                 (let difficulty = calcPoSDifficulty X e ch (Time hdr) par time_target in
                  if Difficulty hdr \<noteq> difficulty
                  then Returns (Some (ErrInvalidDifficulty (Difficulty hdr) difficulty), e)
                  else
                   (let cap = (0x7fffffffffffffff :: uint64) in
                    if GasLimit hdr > cap
                    then Returns (Some (ErrGasLimitAboveCap (GasLimit hdr) cap), e)
                    else if GasUsed hdr > GasLimit hdr \<and> \<not> is_migration
                    then Returns (Some (ErrInvalidGasUsed (GasUsed hdr) (GasLimit hdr)), e)
                    else
                     (let diff = gasLimitDiff (GasLimit par) (GasLimit hdr);
                          limit = GasLimit par div GasLimitBoundDivisor P
                      in if diff \<ge> limit \<and> \<not> is_migration \<and> \<not> IsGen2Migration X par
                         then Returns (Some (ErrInvalidGasLimit (GasLimit hdr) (GasLimit par) limit), e)
                         else if GasLimit hdr < MinGasLimit P
                         then Returns (Some (ErrGasLimitBelowMin (GasLimit hdr) (MinGasLimit P)), e)
                         else if Number hdr - Number par \<noteq> 1
                         then Returns (Some ErrInvalidNumber, e)
                         else
                          (case (if seal
                                 then (case VerifySeal X e ch hdr of
                                         Panics \<Rightarrow> Panics
                                       | Returns (Some err) \<Rightarrow> Returns (Some err)
                                       | Returns None \<Rightarrow> Returns (verifyPoSHash X e ch hdr))
                                 else Returns None) of
                             Panics \<Rightarrow> Panics
                           | Returns (Some err) \<Rightarrow> Returns (Some err, e)
                           | Returns None \<Rightarrow>
                              (case VerifyForkHashes X ch hdr False of
                                 Some err \<Rightarrow> Returns (Some err, e)
                               | None \<Rightarrow>
                                  if seal \<and> GetHeader ch (HeaderHash X hdr) (Uint64 (Number hdr)) = None
                                  then Returns (checkDoS P (HeaderHash X) e ch hdr par)
                                  else Returns (None, e))))))))))"

text \<open>
  The checks of \<open>VerifyHeader\<close> in the order of the source, for a header whose parent was
  found: \<open>passesBeforeGasBound\<close> holds when none of the checks before the gas-limit
  bound rejects (extra-data, migration coinbase, time, modifier, difficulty, gas-limit cap,
  gas used), and \<open>reachesSealStage\<close> when in addition the gas-limit bound, the minimum gas
  limit and the number check do not reject.
\<close>

definition passesBeforeGasBound ::
  "params \<Rightarrow> 'tt ext \<Rightarrow> engine \<Rightarrow> chain \<Rightarrow> header \<Rightarrow> header \<Rightarrow> bool" where
  "passesBeforeGasBound P X e ch hdr par =
     (\<not> (of_nat (length (Extra hdr)) > MaximumExtraDataSize P \<and> \<not> IsGen2Migration X hdr) \<and>
      \<not> (IsGen2Migration X hdr \<and> Coinbase hdr \<noteq> Nuclear_MigrationContract) \<and>
      checkTime X e hdr (calcTimeTarget X e ch par) = None \<and>
      MixDigest hdr = calcPoSModifier X e ch (Time hdr) par \<and>
      Difficulty hdr = calcPoSDifficulty X e ch (Time hdr) par (calcTimeTarget X e ch par) \<and>
      GasLimit hdr \<le> 0x7fffffffffffffff \<and>
      \<not> (GasUsed hdr > GasLimit hdr \<and> \<not> IsGen2Migration X hdr))"

definition reachesSealStage ::
  "params \<Rightarrow> 'tt ext \<Rightarrow> engine \<Rightarrow> chain \<Rightarrow> header \<Rightarrow> header \<Rightarrow> bool" where
  "reachesSealStage P X e ch hdr par =
     (passesBeforeGasBound P X e ch hdr par \<and>
      \<not> (gasLimitDiff (GasLimit par) (GasLimit hdr) \<ge> GasLimit par div GasLimitBoundDivisor P \<and>
         \<not> IsGen2Migration X hdr \<and> \<not> IsGen2Migration X par) \<and>
      \<not> GasLimit hdr < MinGasLimit P \<and>
      Number hdr - Number par = 1)"

section \<open>Finaliser\<close>

text \<open>\<open>common.Address.Hash()\<close>: the address left-padded to 32 bytes.\<close>

definition addrHash :: "address \<Rightarrow> hash" where
  "addrHash a = ucast a"

definition emptyAccount :: account where
  "emptyAccount = \<lparr>acc_nonce = 0, acc_balance = 0, acc_code = [], acc_storage = (\<lambda>k. 0)\<rparr>"

text \<open>
  Modelled from the spec: the state-object operations of \<open>core/state\<close> that
  \<open>processMasternodes\<close> uses.  \<open>GetOrNewStateObject\<close> creates the account when it is absent,
  \<open>SetState\<close> writes one storage slot, and \<open>CleanupStorage(keep)\<close> prunes every slot whose
  key is not in \<open>keep\<close>.
\<close>

definition GetOrNewStateObject :: "statedb \<Rightarrow> address \<Rightarrow> statedb" where
  "GetOrNewStateObject s a =
     (case accounts s a of None \<Rightarrow> s\<lparr>accounts := (accounts s)(a \<mapsto> emptyAccount)\<rparr> | Some acc \<Rightarrow> s)"

definition SetState :: "statedb \<Rightarrow> address \<Rightarrow> hash \<Rightarrow> hash \<Rightarrow> statedb" where
  "SetState s a k v =
     (case accounts s a of
        None \<Rightarrow> s
      | Some acc \<Rightarrow> s\<lparr>accounts := (accounts s)(a \<mapsto> acc\<lparr>acc_storage := (acc_storage acc)(k := v)\<rparr>)\<rparr>)"

definition CleanupStorage :: "statedb \<Rightarrow> address \<Rightarrow> hash set \<Rightarrow> statedb" where
  "CleanupStorage s a keep =
     (case accounts s a of
        None \<Rightarrow> s
      | Some acc \<Rightarrow>
          s\<lparr>accounts := (accounts s)(a \<mapsto>
               acc\<lparr>acc_storage := (\<lambda>k. if k \<in> keep then acc_storage acc k else 0)\<rparr>)\<rparr>)"

text \<open>The tail of \<open>processMasternodes\<close>: the list is written into the reserved account.\<close>

definition storeMasternodes :: "address list \<Rightarrow> statedb \<Rightarrow> statedb" where
  "storeMasternodes masternodes s =
     (let s0 = GetOrNewStateObject s Nuclear_MasternodeList;
          s1 = foldl (\<lambda>st addr. SetState st Nuclear_MasternodeList (addrHash addr) 1) s0 masternodes;
          keep = set (map addrHash masternodes)
      in CleanupStorage s1 Nuclear_MasternodeList keep)"

definition processMasternodes ::
  "'tt ext \<Rightarrow> engine \<Rightarrow> chain \<Rightarrow> header \<Rightarrow> statedb \<Rightarrow> (error option \<times> statedb) outcome" where
  "processMasternodes X e ch hdr statedb =
     (let mnregistry = Nuclear_MasternodeRegistry in
      case abiPack X ''enumerateActive'' of
        Inl err \<Rightarrow> Returns (Some err, statedb)
      | Inr enumerateData \<Rightarrow>
         (let msg = NewMessage mnregistry (Some mnregistry) 0 0 (unlimitedGas e) 0 enumerateData False;
              (rev_id, st1) = Snapshot statedb;
              vm = createEVM e msg hdr;
              gp = unlimitedGas e;
              (res, st2) = ApplyMessage X vm msg gp st1
          in case RevertToSnapshot st2 rev_id of
               Panics \<Rightarrow> Panics
             | Returns st3 \<Rightarrow>
                (case cr_err res of
                   Some err \<Rightarrow> Returns (Some err, st3)
                 | None \<Rightarrow>
                    (case UnpackEnumerateActive X (cr_output res) of
                       Inl err \<Rightarrow> Returns (Some err, st3)
                     | Inr masternodes \<Rightarrow> Returns (None, storeMasternodes masternodes st3)))))"

definition processConsensusGasLimits ::
  "'tt ext \<Rightarrow> engine \<Rightarrow> chain \<Rightarrow> header \<Rightarrow> statedb \<Rightarrow> (error option \<times> engine \<times> statedb) outcome" where
  "processConsensusGasLimits X e ch hdr state =
     (case abiPack X ''consensusGasLimits'' of
        Inl err \<Rightarrow> Returns (Some err, e, state)
      | Inr callData \<Rightarrow>
         (let msg = NewMessage (systemFaucet e) (Some Nuclear_SporkRegistry) 0 0 (callGas e) 0
                      callData False;
              (rev_id, st1) = Snapshot state;
              vm = createEVM e msg hdr;
              gp = callGas e;
              (res, st2) = ApplyMessage X vm msg gp st1
          in case RevertToSnapshot st2 rev_id of
               Panics \<Rightarrow> Panics
             | Returns st3 \<Rightarrow>
                (case cr_err res of
                   Some err \<Rightarrow> Returns (Some err, e, st3)
                 | None \<Rightarrow>
                    (case UnpackConsensusGasLimits X (cr_output res) of
                       Inl err \<Rightarrow> Returns (Some err, e, st3)
                     | Inr (cg, xg) \<Rightarrow>
                        Returns (None, e\<lparr>callGas := Uint64 cg, xferGas := Uint64 xg\<rparr>, st3)))))"

text \<open>
  \<open>govFinalize\<close>.  The state is a pointer; on nil every path dereferences it (the snapshot
  when the call data could be packed, the state root at the end otherwise), which panics.
  The result: transactions, receipts, error, the header with its new root, the state and
  the engine.
\<close>

definition govFinalize ::
  "'tt ext \<Rightarrow> engine \<Rightarrow> chain \<Rightarrow> header \<Rightarrow> statedb option \<Rightarrow> tx list \<Rightarrow> receipt list \<Rightarrow>
     (tx list \<times> receipt list \<times> error option \<times> header \<times> statedb \<times> engine) outcome" where
  "govFinalize X e ch hdr state txs receipts =
     (case state of
        None \<Rightarrow> Panics
      | Some st \<Rightarrow>
         (case processConsensusGasLimits X e ch hdr st of
            Panics \<Rightarrow> Panics
          | Returns (err0, e1, st0) \<Rightarrow>
             (let (txs1, receipts1, err1, st1) =
                    (if err0 = None then processBlockRewards X e1 ch hdr st0 txs receipts
                     else (txs, receipts, err0, st0))
              in case (if err1 = None then processMasternodes X e1 ch hdr st1
                       else Returns (err1, st1)) of
                   Panics \<Rightarrow> Panics
                 | Returns (err2, st2) \<Rightarrow>
                    (let (err3, st3) =
                           (if err2 = None then processBlacklists X e1 ch hdr st2 else (err2, st2));
                         (txs4, receipts4, err4, st4) =
                           (if err3 = None then processDrainable X e1 ch hdr st3 txs1 receipts1
                            else (txs1, receipts1, err3, st3));
                         (err5, st5) =
                           (if err4 = None then finalizeMigration X e1 ch hdr st4 txs4
                            else (err4, st4));
                         (root, st6) = IntermediateRoot X (IsEIP158 ch (Number hdr)) st5
                     in Returns (txs4, receipts4, err5, hdr\<lparr>Root := root\<rparr>, st6, e1)))))"

text \<open>
  \<open>finalize\<close>: block, receipts, error, and the header, state and engine as the call leaves
  them.
\<close>

definition finalize ::
  "'tt ext \<Rightarrow> engine \<Rightarrow> chain \<Rightarrow> header \<Rightarrow> statedb option \<Rightarrow> tx list \<Rightarrow> receipt list \<Rightarrow>
     (block_t \<times> receipt list \<times> error option \<times> header \<times> statedb option \<times> engine) outcome" where
  "finalize X e ch hdr state txs receipts =
     (case (if Coinbase hdr \<noteq> 0
            then (case govFinalize X e ch hdr state txs receipts of
                    Panics \<Rightarrow> Panics
                  | Returns (txs1, receipts1, err, hdr1, st1, e1) \<Rightarrow>
                      Returns (txs1, receipts1, err, hdr1, Some st1, e1))
            else Returns (txs, receipts, None, hdr, state, e)) of
        Panics \<Rightarrow> Panics
      | Returns (txs1, receipts1, err, hdr1, state1, e1) \<Rightarrow>
         (let hdr2 = hdr1\<lparr>UncleHash := uncleHash X\<rparr>
          in Returns (NewBlock X hdr2 txs1 [] receipts1, receipts1, err, hdr2, state1, e1)))"




section \<open>Sealer: rebuilding the block\<close>

text \<open>
  The transaction loop of \<open>recreateBlock\<close>, from index \<open>i\<close>: gas pool, state, used gas and
  the receipts so far; an error of \<open>core.ApplyTransaction\<close> ends it.
\<close>

fun applyTransactions ::
  "'tt ext \<Rightarrow> chain \<Rightarrow> header \<Rightarrow> nat \<Rightarrow> tx list \<Rightarrow> uint64 \<times> statedb \<times> uint64 \<times> receipt list \<Rightarrow>
     error + (uint64 \<times> statedb \<times> uint64 \<times> receipt list)" where
  "applyTransactions X ch hdr i [] acc = Inr acc"
| "applyTransactions X ch hdr i (t # rest) (gp, st, usedGas, receipts) =
     (case ApplyTransaction X ch gp (Prepare st (tx_Hash t) 0 i) hdr t usedGas of
        (Inl err, gp1, st1, usedGas1) \<Rightarrow> Inl err
      | (Inr receipt, gp1, st1, usedGas1) \<Rightarrow>
          applyTransactions X ch hdr (Suc i) rest (gp1, st1, usedGas1, receipts @ [receipt]))"

text \<open>
  \<open>recreateBlock\<close>.  \<open>err\<close> is the named result, nil when the body starts; nothing assigns
  it before the test that follows \<open>CalculateBlockState\<close>.  On a nil state the first
  \<open>blstate.Prepare\<close> dereferences it.  The result: the seal result (nil on an early
  return), the error, and the header and engine as the call leaves them.
\<close>

definition recreateBlock ::
  "'tt ext \<Rightarrow> engine \<Rightarrow> chain \<Rightarrow> header \<Rightarrow> tx list \<Rightarrow>
     (seal_result option \<times> error option \<times> header \<times> engine) outcome" where
  "recreateBlock X e ch hdr txs =
     (let err = (None :: error option);
          usedGas = (0 :: uint64);
          gp = GasLimit hdr;
          blstate = CalculateBlockState ch (ParentHash hdr) (Uint64 (Number hdr) - 1)
      in if err \<noteq> None then Returns (None, Some ErrUnknownAncestor, hdr, e)
         else
          (case (case blstate of
                   None \<Rightarrow> if txs = [] then Returns (Inr (gp, None, usedGas, [])) else Panics
                 | Some st \<Rightarrow>
                    (case applyTransactions X ch hdr 0 txs (gp, st, usedGas, []) of
                       Inl er \<Rightarrow> Returns (Inl er)
                     | Inr (gp1, st1, usedGas1, receipts) \<Rightarrow>
                         Returns (Inr (gp1, Some st1, usedGas1, receipts)))) of
             Panics \<Rightarrow> Panics
           | Returns (Inl er) \<Rightarrow> Returns (None, Some er, hdr, e)
           | Returns (Inr (gp1, blstate1, usedGas1, receipts)) \<Rightarrow>
              (let hdr1 = hdr\<lparr>GasUsed := usedGas1, Bloom := 0\<rparr> in
               case finalize X e ch hdr1 blstate1 txs receipts of
                 Panics \<Rightarrow> Panics
               | Returns (blk, receipts1, err1, hdr2, blstate2, e1) \<Rightarrow>
                   Returns (Some (NewSealResult (Some blk) blstate2 receipts1), err1, hdr2, e1))))"

section \<open>Fixtures\<close>

definition ex_params :: params where
  "ex_params = \<lparr>MaximumExtraDataSize = 32, MinGasLimit = 5000, GasLimitBoundDivisor = 1024,
     StakeThrottle = 60, OldForkPeriod = 900\<rparr>"

definition ex_header :: header where
  "ex_header = \<lparr>ParentHash = 7, UncleHash = 0, Coinbase = 0xC0, Root = 0, TxHash = 0,
     ReceiptHash = 0, Bloom = 0, Difficulty = 1, Number = 2, GasLimit = 8000000, GasUsed = 0,
     Time = 10000, Extra = [], MixDigest = 0, Nonce = 0, Signature = []\<rparr>"

definition ex_parent :: header where
  "ex_parent = ex_header\<lparr>ParentHash := 6, Number := 1, Time := 9990\<rparr>"

text \<open>A stand-in for \<open>header.Hash()\<close> in the fixtures: it tells headers apart by their nonce.\<close>

definition ex_hash :: "header \<Rightarrow> hash" where
  "ex_hash h = ucast (Nonce h) + 1000"

definition ex_chain :: chain where
  "ex_chain = \<lparr>GetHeader = (\<lambda>h n. if h = 7 \<and> n = 1 then Some ex_parent else None),
     CurrentHeader = ex_parent,
     CalculateBlockState = (\<lambda>h n. None),
     IsEIP158 = (\<lambda>n. True)\<rparr>"

definition ex_engine :: engine where
  "ex_engine = \<lparr>nonceCap = 0, systemFaucet = Nuclear_SystemFaucet, xferGas = 0, callGas = 30000,
     unlimitedGas = 0xFFFFFFFFFFFF, clock = (\<lambda>n. 10001), clock_reads = 0,
     knownStakes = (\<lambda>k. None), nextKSPurge = 0, txhashMap = []\<rparr>"

definition ex_state :: statedb where
  "ex_state = \<lparr>accounts = (\<lambda>a. if a = 0xC0 then Some emptyAccount else None), revisions = [],
     thash = 0, bhash = 0, txIndex = 0\<rparr>"

definition ex_call_result :: call_result where
  "ex_call_result = \<lparr>cr_output = [], cr_gas_used = 21000, cr_failed = False, cr_err = None\<rparr>"

text \<open>
  A choice of the external collaborators for the fixtures.  Its EVM wipes the account
  \<open>0xC0\<close> on every call, so that a call leaves a trace unless it is reverted.
\<close>

definition ex_ext :: "unit ext" where
  "ex_ext = \<lparr>IsGen2Migration = (\<lambda>h. Number h = 1),
     HeaderHash = ex_hash,
     calcTimeTarget = (\<lambda>e c p. ()),
     checkTime = (\<lambda>e h t. None),
     calcPoSModifier = (\<lambda>e c t p. 0),
     calcPoSDifficulty = (\<lambda>e c t p tt. 1),
     verifyPoSHash = (\<lambda>e c h. None),
     VerifyForkHashes = (\<lambda>c h u. None),
     IsBlacklisted = (\<lambda>s a. a = 0xBAD),
     ValidateSignatureValues = (\<lambda>v r s homestead. v \<le> 1 \<and> 0 < r \<and> 0 < s),
     Ecrecover = (\<lambda>h sig. Inl (ExternalError ''recovery failed'')),
     Keccak256 = (\<lambda>bs. of_nat (length bs)),
     rlpEncode = (\<lambda>items. Some (map (\<lambda>i. 0) items)),
     CalcUncleHash = (\<lambda>us. 0x1dcc4de8dec75d7aab85b567b6ccd41ad312451b948a7413f0a142fd40d49347),
     abiPack = (\<lambda>m. Inr []),
     UnpackSignerAddress = (\<lambda>bs. Inr 0),
     UnpackConsensusGasLimits = (\<lambda>bs. Inr (40000, 2300)),
     UnpackEnumerateActive = (\<lambda>bs. Inr [0xA1, 0xA2]),
     applyMessage = (\<lambda>vm msg gp w. (ex_call_result, w(0xC0 := None))),
     ApplyTransaction = (\<lambda>c gp s h t used.
        (Inr \<lparr>rc_CumulativeGasUsed = used + 21000, rc_TxHash = tx_Hash t\<rparr>, gp - 21000, s,
         used + 21000)),
     IntermediateRoot = (\<lambda>b s. (0x55, s)),
     processBlockRewards = (\<lambda>e c h s txs rs. (txs, rs, None, s)),
     processBlacklists = (\<lambda>e c h s. (None, s)),
     processDrainable = (\<lambda>e c h s txs rs. (txs, rs, None, s)),
     finalizeMigration = (\<lambda>e c h s txs. (None, s)),
     NewBlockHeader = (\<lambda>h txs us rs. h)\<rparr>"

definition ex_msg :: message where
  "ex_msg = NewMessage Nuclear_SystemFaucet (Some Nuclear_SporkRegistry) 0 0 30000 0 [] False"

definition ex_engine_seen :: engine where
  "ex_engine_seen = ex_engine\<lparr>knownStakes :=
     (\<lambda>k. if k = \<lparr>coinbase = 0xC0, parent = 7\<rparr> then Some \<lparr>block = 1000, ts = 10000\<rparr> else None)\<rparr>"

definition ex_engine_late :: engine where
  "ex_engine_late = ex_engine\<lparr>clock := (\<lambda>n. 20000)\<rparr>"

definition ex_chain_fresh :: chain where
  "ex_chain_fresh = ex_chain\<lparr>CurrentHeader := ex_parent\<lparr>Time := 19500\<rparr>\<rparr>"

definition ex_chain_state :: chain where
  "ex_chain_state = ex_chain\<lparr>CalculateBlockState :=
     (\<lambda>h n. if h = 7 \<and> n = 1 then Some ex_state else None)\<rparr>"

definition ex_engine_cached :: engine where
  "ex_engine_cached = ex_engine\<lparr>txhashMap := [(0x22, 0x11)]\<rparr>"

definition ex_parent5 :: header where
  "ex_parent5 = ex_parent\<lparr>Number := 5\<rparr>"

definition ex_header6 :: header where
  "ex_header6 = ex_header\<lparr>Number := 6\<rparr>"

definition ex_chain5 :: chain where
  "ex_chain5 = ex_chain\<lparr>GetHeader := (\<lambda>h n. if h = 7 \<and> n = 5 then Some ex_parent5 else None)\<rparr>"

definition ex_ext_forkfail :: "unit ext" where
  "ex_ext_forkfail = ex_ext\<lparr>VerifyForkHashes := (\<lambda>c h u. Some (ExternalError ''fork hash''))\<rparr>"

text \<open>An EVM whose calls fail, after touching the state.\<close>

definition ex_ext_evmfail :: "unit ext" where
  "ex_ext_evmfail = ex_ext\<lparr>applyMessage := (\<lambda>vm msg gp w.
     (ex_call_result\<lparr>cr_err := Some (ExternalError ''out of gas'')\<rparr>, w(0xC0 := None)))\<rparr>"




section \<open>Properties of the DoS guard\<close>

text \<open>
  C1 (stake throttle).  Let the table hold an entry \<open>prev\<close> under the key
  \<open>(coinbase, parentHash)\<close> of the header, and let \<open>t\<close> be the reading of \<open>now\<close> that the
  stake rule takes.  If \<open>prev\<close> is still active at \<open>t\<close> (\<open>t - ts\<close>, in 64-bit arithmetic, is
  below \<open>StakeThrottle\<close>) and its block hash differs from the header's, \<open>checkDoS\<close> returns
  \<open>ErrDoSThrottle\<close>.  If the hashes are equal or \<open>prev\<close> is no longer active, and the old-fork
  rule does not reject, \<open>checkDoS\<close> returns no error and the entry under the key is the new
  \<open>(blockHash, t)\<close>; \<open>StakeThrottle\<close>, a constant of \<open>energi_params\<close>, is
  taken to be positive, so that the purge of the same call keeps the fresh entry.
\<close>

theorem checkDoS_stake_throttle:
  "knownStakes e \<lparr>coinbase = Coinbase hdr, parent = ParentHash hdr\<rparr> = Some prev \<Longrightarrow>
   t = clock e (Suc (clock_reads e)) \<Longrightarrow>
   (isActive P prev t \<and> block prev \<noteq> hdr_hash hdr \<longrightarrow>
      fst (checkDoS P hdr_hash e ch hdr par) = Some ErrDoSThrottle) \<and>
   ((block prev = hdr_hash hdr \<or> \<not> isActive P prev t) \<and>
    \<not> (Time par < clock e (clock_reads e) - OldForkPeriod P \<and>
       Time (CurrentHeader ch) > clock e (clock_reads e) - OldForkPeriod P) \<and>
    0 < StakeThrottle P \<longrightarrow>
      fst (checkDoS P hdr_hash e ch hdr par) = None \<and>
      knownStakes (snd (checkDoS P hdr_hash e ch hdr par))
        \<lparr>coinbase = Coinbase hdr, parent = ParentHash hdr\<rparr> = Some \<lparr>block = hdr_hash hdr, ts = t\<rparr>)"
  by (auto simp: checkDoS_def stakeThrottle_def now_def LoadOrStore_def purgeKnownStakes_def
      isActive_def Let_def)

text \<open>
  An entry seen one second ago under the same key: a header with another hash is
  throttled, the same header again is accepted and its entry refreshed.
\<close>

theorem checkDoS_stake_throttle_witness:
  "fst (checkDoS ex_params ex_hash ex_engine_seen ex_chain (ex_header\<lparr>Nonce := 5\<rparr>) ex_parent)
     = Some ErrDoSThrottle \<and>
   fst (checkDoS ex_params ex_hash ex_engine_seen ex_chain ex_header ex_parent) = None \<and>
   knownStakes (snd (checkDoS ex_params ex_hash ex_engine_seen ex_chain ex_header ex_parent))
     \<lparr>coinbase = 0xC0, parent = 7\<rparr> = Some \<lparr>block = 1000, ts = 10001\<rparr>"
proof -
  have k5: "knownStakes ex_engine_seen \<lparr>coinbase = Coinbase (ex_header\<lparr>Nonce := 5\<rparr>),
      parent = ParentHash (ex_header\<lparr>Nonce := 5\<rparr>)\<rparr> = Some \<lparr>block = 1000, ts = 10000\<rparr>"
    by (simp add: ex_engine_seen_def ex_header_def)
  have k0: "knownStakes ex_engine_seen \<lparr>coinbase = Coinbase ex_header,
      parent = ParentHash ex_header\<rparr> = Some \<lparr>block = 1000, ts = 10000\<rparr>"
    by (simp add: ex_engine_seen_def ex_header_def)
  have t: "(10001::uint64) = clock ex_engine_seen (Suc (clock_reads ex_engine_seen))"
    by (simp add: ex_engine_seen_def ex_engine_def)
  have act: "isActive ex_params \<lparr>block = 1000, ts = 10000\<rparr> 10001"
    by (simp add: isActive_def ex_params_def)
  have h5: "ex_hash (ex_header\<lparr>Nonce := 5\<rparr>) = 1005" and h0: "ex_hash ex_header = 1000"
    by (simp_all add: ex_hash_def ex_header_def)
  have fork: "\<not> (Time ex_parent
        < clock ex_engine_seen (clock_reads ex_engine_seen) - OldForkPeriod ex_params \<and>
      Time (CurrentHeader ex_chain)
        > clock ex_engine_seen (clock_reads ex_engine_seen) - OldForkPeriod ex_params)"
    by (simp add: ex_parent_def ex_engine_seen_def ex_engine_def ex_params_def)
  have pos: "0 < StakeThrottle ex_params"
    by (simp add: ex_params_def)
  have cb: "Coinbase ex_header = 0xC0" "ParentHash ex_header = 7"
    by (simp_all add: ex_header_def)
  from checkDoS_stake_throttle [OF k5 t, of ex_params ex_hash ex_chain ex_parent] act h5
  have a: "fst (checkDoS ex_params ex_hash ex_engine_seen ex_chain (ex_header\<lparr>Nonce := 5\<rparr>) ex_parent)
     = Some ErrDoSThrottle"
    by simp
  from checkDoS_stake_throttle [OF k0 t, of ex_params ex_hash ex_chain ex_parent] h0 fork pos cb
  have b: "fst (checkDoS ex_params ex_hash ex_engine_seen ex_chain ex_header ex_parent) = None \<and>
   knownStakes (snd (checkDoS ex_params ex_hash ex_engine_seen ex_chain ex_header ex_parent))
     \<lparr>coinbase = 0xC0, parent = 7\<rparr> = Some \<lparr>block = 1000, ts = 10001\<rparr>"
    by simp
  from a b show ?thesis by simp
qed

text \<open>
  C7 (old-fork suppression).  With \<open>thr = now - OldForkPeriod\<close> (64-bit, from the first
  reading of \<open>now\<close>): when \<open>parent.Time < thr\<close> and the chain head's time is above \<open>thr\<close>,
  \<open>checkDoS\<close> returns \<open>ErrDoSThrottle\<close> and leaves the table alone; in every other case (the
  parent is recent, or the head is stale) this rule does not reject and the outcome is that
  of the stake rule.  When \<open>now\<close> is at least \<open>OldForkPeriod\<close> the 64-bit comparison is the
  comparison of the numbers.
\<close>

theorem checkDoS_old_fork:
  "thr = clock e (clock_reads e) - OldForkPeriod P \<Longrightarrow>
   (Time par < thr \<and> thr < Time (CurrentHeader ch) \<longrightarrow>
      checkDoS P hh e ch hdr par = (Some ErrDoSThrottle, e\<lparr>clock_reads := Suc (clock_reads e)\<rparr>)) \<and>
   (\<not> (Time par < thr \<and> thr < Time (CurrentHeader ch)) \<longrightarrow>
      checkDoS P hh e ch hdr par = stakeThrottle P hh (e\<lparr>clock_reads := Suc (clock_reads e)\<rparr>) hdr) \<and>
   (OldForkPeriod P \<le> clock e (clock_reads e) \<longrightarrow>
      ((Time par < thr \<and> thr < Time (CurrentHeader ch)) \<longleftrightarrow>
       (unat (Time par) < unat (clock e (clock_reads e)) - unat (OldForkPeriod P) \<and>
        unat (clock e (clock_reads e)) - unat (OldForkPeriod P) < unat (Time (CurrentHeader ch)))))"
  by (auto simp: checkDoS_def now_def Let_def word_less_nat_alt unat_sub)

text \<open>
  A stale parent under a fresh head is rejected; the same parent under a head that is
  itself stale goes on to the stake rule, which accepts.
\<close>

theorem checkDoS_old_fork_witness:
  "checkDoS ex_params ex_hash ex_engine_late ex_chain_fresh ex_header ex_parent
     = (Some ErrDoSThrottle, ex_engine_late\<lparr>clock_reads := Suc (clock_reads ex_engine_late)\<rparr>) \<and>
   checkDoS ex_params ex_hash ex_engine_late ex_chain ex_header ex_parent
     = stakeThrottle ex_params ex_hash
         (ex_engine_late\<lparr>clock_reads := Suc (clock_reads ex_engine_late)\<rparr>) ex_header"
proof -
  have thr: "(19100::uint64) = clock ex_engine_late (clock_reads ex_engine_late) - OldForkPeriod ex_params"
    by (simp add: ex_engine_late_def ex_engine_def ex_params_def)
  have old: "Time ex_parent < (19100::uint64)"
    by (simp add: ex_parent_def)
  have fresh: "(19100::uint64) < Time (CurrentHeader ex_chain_fresh)"
    by (simp add: ex_chain_fresh_def)
  have stale: "\<not> (19100::uint64) < Time (CurrentHeader ex_chain)"
    by (simp add: ex_chain_def ex_parent_def)
  from checkDoS_old_fork [OF thr, of ex_parent ex_chain_fresh ex_hash ex_header] old fresh
  have a: "checkDoS ex_params ex_hash ex_engine_late ex_chain_fresh ex_header ex_parent
     = (Some ErrDoSThrottle, ex_engine_late\<lparr>clock_reads := Suc (clock_reads ex_engine_late)\<rparr>)"
    by simp
  from checkDoS_old_fork [OF thr, of ex_parent ex_chain ex_hash ex_header] stale
  have b: "checkDoS ex_params ex_hash ex_engine_late ex_chain ex_header ex_parent
     = stakeThrottle ex_params ex_hash
         (ex_engine_late\<lparr>clock_reads := Suc (clock_reads ex_engine_late)\<rparr>) ex_header"
    by simp
  from a b show ?thesis by simp
qed

section \<open>Properties of the seal verifier\<close>

text \<open>
  C3 (order of the checks of \<open>VerifySeal\<close>).  When the state at the parent cannot be
  calculated the result is \<open>ErrMissingState\<close>.  Otherwise a blacklisted coinbase gives
  \<open>errBlacklistedCoinbase\<close> whatever the signature is; otherwise a signature whose length is
  not 65 gives \<open>errMissingSig\<close>; otherwise a signature whose \<open>(r, s, v)\<close> fail
  \<open>ValidateSignatureValues\<close> gives \<open>ErrInvalidSig\<close>.
\<close>

theorem VerifySeal_check_order:
  "(CalculateBlockState ch (ParentHash hdr) (Uint64 (Number hdr) - 1) = None \<longrightarrow>
      VerifySeal X e ch hdr = Returns (Some ErrMissingState)) \<and>
   (\<forall>blockst. CalculateBlockState ch (ParentHash hdr) (Uint64 (Number hdr) - 1) = Some blockst \<longrightarrow>
      (IsBlacklisted X blockst (Coinbase hdr) \<longrightarrow>
         (\<forall>sig. VerifySeal X e ch (hdr\<lparr>Signature := sig\<rparr>) = Returns (Some errBlacklistedCoinbase))) \<and>
      (\<not> IsBlacklisted X blockst (Coinbase hdr) \<and> length (Signature hdr) \<noteq> 65 \<longrightarrow>
         VerifySeal X e ch hdr = Returns (Some errMissingSig)) \<and>
      (\<not> IsBlacklisted X blockst (Coinbase hdr) \<and> length (Signature hdr) = 65 \<and>
       \<not> ValidateSignatureValues X (Signature hdr ! 64) (SetBytes (take 32 (Signature hdr)))
           (SetBytes (take 32 (drop 32 (Signature hdr)))) True \<longrightarrow>
         VerifySeal X e ch hdr = Returns (Some ErrInvalidSig)))"
  by (simp add: VerifySeal_def sealLen_def Let_def)

text \<open>
  The four outcomes on the fixtures: no state at an unknown parent; a blacklisted coinbase
  with a well-formed signature; a 64-byte signature; 65 bytes with \<open>v = 5\<close>.
\<close>

theorem VerifySeal_check_order_witness:
  "VerifySeal ex_ext ex_engine ex_chain_state (ex_header\<lparr>ParentHash := 8\<rparr>)
     = Returns (Some ErrMissingState) \<and>
   VerifySeal ex_ext ex_engine ex_chain_state
       (ex_header\<lparr>Coinbase := 0xBAD, Signature := replicate 65 1\<rparr>)
     = Returns (Some errBlacklistedCoinbase) \<and>
   VerifySeal ex_ext ex_engine ex_chain_state (ex_header\<lparr>Signature := replicate 64 1\<rparr>)
     = Returns (Some errMissingSig) \<and>
   VerifySeal ex_ext ex_engine ex_chain_state (ex_header\<lparr>Signature := replicate 65 5\<rparr>)
     = Returns (Some ErrInvalidSig)"
proof -
  have pn: "Uint64 2 - 1 = (1::uint64)"
    by (simp add: Uint64_def)
  have none: "CalculateBlockState ex_chain_state (ParentHash (ex_header\<lparr>ParentHash := 8\<rparr>))
      (Uint64 (Number (ex_header\<lparr>ParentHash := 8\<rparr>)) - 1) = None"
    by (simp add: ex_chain_state_def ex_header_def)
  have st: "\<And>h. ParentHash h = 7 \<Longrightarrow> Number h = 2 \<Longrightarrow>
      CalculateBlockState ex_chain_state (ParentHash h) (Uint64 (Number h) - 1) = Some ex_state"
    by (simp add: ex_chain_state_def pn)
  have bl: "\<And>a. IsBlacklisted ex_ext ex_state a = (a = 0xBAD)"
    by (simp add: ex_ext_def)
  have v: "\<not> ValidateSignatureValues ex_ext (replicate 65 5 ! 64) r s True" for r s
    by (simp add: ex_ext_def word_le_nat_alt)
  from VerifySeal_check_order [of ex_chain_state "ex_header\<lparr>ParentHash := 8\<rparr>" ex_ext ex_engine] none
  have a: "VerifySeal ex_ext ex_engine ex_chain_state (ex_header\<lparr>ParentHash := 8\<rparr>)
     = Returns (Some ErrMissingState)"
    by simp
  have "VerifySeal ex_ext ex_engine ex_chain_state
       (ex_header\<lparr>Coinbase := 0xBAD\<rparr>\<lparr>Signature := replicate 65 1\<rparr>)
     = Returns (Some errBlacklistedCoinbase)"
    using VerifySeal_check_order [of ex_chain_state "ex_header\<lparr>Coinbase := 0xBAD\<rparr>" ex_ext ex_engine]
      st [of "ex_header\<lparr>Coinbase := 0xBAD\<rparr>"] bl
    by (simp add: ex_header_def)
  then have b: "VerifySeal ex_ext ex_engine ex_chain_state
       (ex_header\<lparr>Coinbase := 0xBAD, Signature := replicate 65 1\<rparr>)
     = Returns (Some errBlacklistedCoinbase)"
    by simp
  have c: "VerifySeal ex_ext ex_engine ex_chain_state (ex_header\<lparr>Signature := replicate 64 1\<rparr>)
     = Returns (Some errMissingSig)"
    using VerifySeal_check_order [of ex_chain_state "ex_header\<lparr>Signature := replicate 64 1\<rparr>" ex_ext ex_engine]
      st [of "ex_header\<lparr>Signature := replicate 64 1\<rparr>"] bl
    by (simp add: ex_header_def)
  have d: "VerifySeal ex_ext ex_engine ex_chain_state (ex_header\<lparr>Signature := replicate 65 5\<rparr>)
     = Returns (Some ErrInvalidSig)"
    using VerifySeal_check_order [of ex_chain_state "ex_header\<lparr>Signature := replicate 65 5\<rparr>" ex_ext ex_engine]
      st [of "ex_header\<lparr>Signature := replicate 65 5\<rparr>"] bl v
    by (simp add: ex_header_def)
  from a b c d show ?thesis by simp
qed

section \<open>Properties of the signing hashes\<close>

lemma lru_Get_value: "fst (lru_Get c k) = map_of c k"
  by (simp add: lru_Get_def split: option.splits)

text \<open>
  C8 (seal-hash determinism).  For every header and every state of the cache, \<open>SealHash\<close> is
  the Keccak-256 of the RLP list of the parent hash, the uncle hash, the transactions root
  (the cached root when \<open>TxHash\<close> has an entry in \<open>txhashMap\<close>, \<open>TxHash\<close> itself otherwise),
  the number and the gas limit; two headers, each with its own cache, that agree on these
  five resolved values have the same seal hash.
\<close>

theorem SealHash_depends_only:
  "ParentHash h1 = ParentHash h2 \<Longrightarrow> UncleHash h1 = UncleHash h2 \<Longrightarrow>
   (case map_of (txhashMap e1) (TxHash h1) of Some r \<Rightarrow> r | None \<Rightarrow> TxHash h1) =
   (case map_of (txhashMap e2) (TxHash h2) of Some r \<Rightarrow> r | None \<Rightarrow> TxHash h2) \<Longrightarrow>
   Number h1 = Number h2 \<Longrightarrow> GasLimit h1 = GasLimit h2 \<Longrightarrow>
   fst (SealHash X e1 h1) = fst (SealHash X e2 h2) \<and>
   fst (SealHash X e1 h1) =
     Keccak256 X (written (rlpEncode X
       [RlpHash (ParentHash h1), RlpHash (UncleHash h1),
        RlpHash (case map_of (txhashMap e1) (TxHash h1) of Some r \<Rightarrow> r | None \<Rightarrow> TxHash h1),
        RlpBig (Number h1), RlpUint (GasLimit h1)]))"
proof -
  have eq: "fst (SealHash X e h) =
     Keccak256 X (written (rlpEncode X
       [RlpHash (ParentHash h), RlpHash (UncleHash h),
        RlpHash (case map_of (txhashMap e) (TxHash h) of Some r \<Rightarrow> r | None \<Rightarrow> TxHash h),
        RlpBig (Number h), RlpUint (GasLimit h)]))" for e h
    using lru_Get_value [of "txhashMap e" "TxHash h"]
    by (auto simp: SealHash_def Let_def split: prod.splits)
  assume "ParentHash h1 = ParentHash h2" "UncleHash h1 = UncleHash h2"
    "(case map_of (txhashMap e1) (TxHash h1) of Some r \<Rightarrow> r | None \<Rightarrow> TxHash h1) =
     (case map_of (txhashMap e2) (TxHash h2) of Some r \<Rightarrow> r | None \<Rightarrow> TxHash h2)"
    "Number h1 = Number h2" "GasLimit h1 = GasLimit h2"
  then show ?thesis
    by (simp add: eq)
qed

text \<open>
  A sealed header whose transactions root \<open>0x22\<close> is cached as \<open>0x11\<close>, with another
  coinbase and time, has the seal hash of the work item with the root \<open>0x11\<close>.
\<close>

theorem SealHash_depends_only_witness:
  "fst (SealHash ex_ext ex_engine_cached (ex_header\<lparr>TxHash := 0x22, Coinbase := 0xC1, Time := 10004\<rparr>))
     = fst (SealHash ex_ext ex_engine (ex_header\<lparr>TxHash := 0x11\<rparr>))"
proof -
  have r: "(case map_of (txhashMap ex_engine_cached)
              (TxHash (ex_header\<lparr>TxHash := 0x22, Coinbase := 0xC1, Time := 10004\<rparr>)) of
             Some r \<Rightarrow> r
           | None \<Rightarrow> TxHash (ex_header\<lparr>TxHash := 0x22, Coinbase := 0xC1, Time := 10004\<rparr>)) =
           (case map_of (txhashMap ex_engine) (TxHash (ex_header\<lparr>TxHash := 0x11\<rparr>)) of
             Some r \<Rightarrow> r
           | None \<Rightarrow> TxHash (ex_header\<lparr>TxHash := 0x11\<rparr>))"
    by (simp add: ex_engine_cached_def ex_engine_def)
  from SealHash_depends_only [where ?h1.0 = "ex_header\<lparr>TxHash := 0x22, Coinbase := 0xC1, Time := 10004\<rparr>"
      and ?h2.0 = "ex_header\<lparr>TxHash := 0x11\<rparr>" and ?e1.0 = ex_engine_cached and ?e2.0 = ex_engine
      and X = ex_ext, OF _ _ r]
  show ?thesis
    by simp
qed

section \<open>Properties of the finaliser\<close>

text \<open>
  C9 (zero coinbase).  For a header whose coinbase is the zero address, \<open>finalize\<close> returns
  no error and the block assembled from the given transactions and receipts; the header it
  leaves differs from the given one in \<open>UncleHash\<close> only (so \<open>Root\<close> is untouched), and the
  state and the engine are the given ones.  No governance step runs: the result is the same
  under every choice of the external collaborators that agrees on the block assembly and the
  uncle hash.
\<close>

theorem finalize_zero_coinbase:
  "Coinbase hdr = 0 \<Longrightarrow>
   finalize X e ch hdr state txs receipts =
     Returns (NewBlock X (hdr\<lparr>UncleHash := uncleHash X\<rparr>) txs [] receipts, receipts, None,
              hdr\<lparr>UncleHash := uncleHash X\<rparr>, state, e) \<and>
   Root (hdr\<lparr>UncleHash := uncleHash X\<rparr>) = Root hdr \<and>
   (\<forall>Y. NewBlockHeader Y = NewBlockHeader X \<and> CalcUncleHash Y = CalcUncleHash X \<longrightarrow>
        finalize Y e ch hdr state txs receipts = finalize X e ch hdr state txs receipts)"
  by (simp add: finalize_def Let_def NewBlock_def uncleHash_def)

theorem finalize_zero_coinbase_witness:
  "finalize ex_ext ex_engine ex_chain (ex_header\<lparr>Coinbase := 0\<rparr>) (Some ex_state) [] [] =
     Returns (NewBlock ex_ext (ex_header\<lparr>Coinbase := 0, UncleHash := uncleHash ex_ext\<rparr>) [] [] [],
              [], None, ex_header\<lparr>Coinbase := 0, UncleHash := uncleHash ex_ext\<rparr>,
              Some ex_state, ex_engine)"
proof -
  have z: "Coinbase (ex_header\<lparr>Coinbase := 0\<rparr>) = 0"
    by simp
  from finalize_zero_coinbase [OF z, of ex_ext ex_engine ex_chain "Some ex_state" "[]" "[]"]
  have "finalize ex_ext ex_engine ex_chain (ex_header\<lparr>Coinbase := 0\<rparr>) (Some ex_state) [] [] =
     Returns (NewBlock ex_ext (ex_header\<lparr>Coinbase := 0\<rparr>\<lparr>UncleHash := uncleHash ex_ext\<rparr>) [] [] [],
              [], None, ex_header\<lparr>Coinbase := 0\<rparr>\<lparr>UncleHash := uncleHash ex_ext\<rparr>,
              Some ex_state, ex_engine)"
    by (rule conjunct1)
  then show ?thesis
    by simp
qed

lemma snapshot_apply_revert:
  "Snapshot s = (rid, s1) \<Longrightarrow> ApplyMessage X vm msg gp s1 = (res, s2) \<Longrightarrow>
   RevertToSnapshot s2 rid = Returns s"
  by (auto simp: Snapshot_def ApplyMessage_def RevertToSnapshot_def split: prod.splits)

lemma snapshot_apply_revert_proj:
  "RevertToSnapshot (snd (ApplyMessage X vm msg gp (snd (Snapshot s)))) (fst (Snapshot s)) = Returns s"
  by (rule snapshot_apply_revert [of s _ _ X vm msg gp "fst (ApplyMessage X vm msg gp (snd (Snapshot s)))"])
    simp_all

lemma processConsensusGasLimits_state:
  "\<exists>err e1. processConsensusGasLimits X e ch hdr st = Returns (err, e1, st)"
proof (cases "abiPack X ''consensusGasLimits''")
  case (Inl err)
  then show ?thesis
    by (simp add: processConsensusGasLimits_def)
next
  case (Inr callData)
  let ?msg = "NewMessage (systemFaucet e) (Some Nuclear_SporkRegistry) 0 0 (callGas e) 0
                callData False"
  obtain rid s1 where sn: "Snapshot st = (rid, s1)"
    by (cases "Snapshot st")
  obtain res s2 where ap: "ApplyMessage X (createEVM e ?msg hdr) ?msg (callGas e) s1 = (res, s2)"
    by (cases "ApplyMessage X (createEVM e ?msg hdr) ?msg (callGas e) s1")
  have rv: "RevertToSnapshot s2 rid = Returns st"
    using snapshot_apply_revert [OF sn ap] .
  show ?thesis
    using Inr sn ap rv
    by (simp add: processConsensusGasLimits_def Let_def split: option.splits sum.splits prod.splits)
qed

lemma processMasternodes_state:
  "\<exists>err st1. processMasternodes X e ch hdr st = Returns (err, st1) \<and>
      (err \<noteq> None \<longrightarrow> st1 = st) \<and>
      (err = None \<longrightarrow> (\<exists>mns. st1 = storeMasternodes mns st))"
proof (cases "abiPack X ''enumerateActive''")
  case (Inl err)
  then show ?thesis
    by (simp add: processMasternodes_def)
next
  case (Inr enumerateData)
  let ?msg = "NewMessage Nuclear_MasternodeRegistry (Some Nuclear_MasternodeRegistry) 0 0
                (unlimitedGas e) 0 enumerateData False"
  obtain rid s1 where sn: "Snapshot st = (rid, s1)"
    by (cases "Snapshot st")
  obtain res s2 where ap: "ApplyMessage X (createEVM e ?msg hdr) ?msg (unlimitedGas e) s1 = (res, s2)"
    by (cases "ApplyMessage X (createEVM e ?msg hdr) ?msg (unlimitedGas e) s1")
  have rv: "RevertToSnapshot s2 rid = Returns st"
    using snapshot_apply_revert [OF sn ap] .
  show ?thesis
    using Inr sn ap rv
    by (auto simp: processMasternodes_def Let_def split: option.splits sum.splits)
qed

text \<open>
  C4 (EVM-invoker purity).  Whatever the EVM does to the content of the state database
  during the call, and whether the call succeeds, the EVM returns an error, or the output
  cannot be unpacked (or the call data cannot be packed at all): \<open>processConsensusGasLimits\<close>
  returns with the state database exactly as it was given, and \<open>processMasternodes\<close> returns
  either an error with the state database as it was given, or no error with the
  masternode list written into the state as it was given, that is, after the revert.
\<close>

theorem governance_reads_revert:
  "(\<exists>err e1. processConsensusGasLimits X e ch hdr st = Returns (err, e1, st)) \<and>
   (\<exists>err st1. processMasternodes X e ch hdr st = Returns (err, st1) \<and>
      (err \<noteq> None \<longrightarrow> st1 = st) \<and>
      (err = None \<longrightarrow> (\<exists>mns. st1 = storeMasternodes mns st)))"
  using processConsensusGasLimits_state processMasternodes_state
  by blast

text \<open>
  On the fixtures the EVM wipes the account \<open>0xC0\<close>, which the state holds; after the gas
  limits are read the state is the given one all the same, and after a failed
  \<open>enumerateActive\<close> call as well.
\<close>

theorem governance_reads_revert_witness:
  "accounts ex_state 0xC0 = Some emptyAccount \<and>
   snd (applyMessage ex_ext (createEVM ex_engine ex_msg ex_header) ex_msg 30000
          (accounts ex_state)) 0xC0 = None \<and>
   (\<exists>err e1. processConsensusGasLimits ex_ext ex_engine ex_chain ex_header ex_state
      = Returns (err, e1, ex_state)) \<and>
   processMasternodes ex_ext_evmfail ex_engine ex_chain ex_header ex_state
     = Returns (Some (ExternalError ''out of gas''), ex_state)"
proof -
  let ?X = "ex_ext_evmfail"
  have a: "accounts ex_state 0xC0 = Some emptyAccount"
    by (simp add: ex_state_def)
  have b: "snd (applyMessage ex_ext (createEVM ex_engine ex_msg ex_header) ex_msg 30000
          (accounts ex_state)) 0xC0 = None"
    by (simp add: ex_ext_def)
  from governance_reads_revert [of ex_ext ex_engine ex_chain ex_header ex_state]
  have c: "\<exists>err e1. processConsensusGasLimits ex_ext ex_engine ex_chain ex_header ex_state
      = Returns (err, e1, ex_state)"
    by (rule conjunct1)
  have pk: "abiPack ?X m = Inr []" for m
    by (simp add: ex_ext_evmfail_def ex_ext_def)
  have rr: "cr_err (fst (ApplyMessage ?X v m g st)) = Some (ExternalError ''out of gas'')"
    for v m g st
    by (simp add: ApplyMessage_def ex_ext_evmfail_def)
  have d: "processMasternodes ?X ex_engine ex_chain ex_header ex_state
      = Returns (Some (ExternalError ''out of gas''), ex_state)"
    by (simp add: processMasternodes_def Let_def case_prod_beta pk rr snapshot_apply_revert_proj)
  from a b c d show ?thesis
    by simp
qed

section \<open>Properties of the sealer\<close>

lemma finalize_nil_state:
  "finalize X e ch hdr None txs receipts =
     (if Coinbase hdr \<noteq> 0 then Panics
      else Returns (NewBlock X (hdr\<lparr>UncleHash := uncleHash X\<rparr>) txs [] receipts, receipts, None,
                    hdr\<lparr>UncleHash := uncleHash X\<rparr>, None, e))"
  by (simp add: finalize_def govFinalize_def Let_def)

text \<open>
  C10 (the dead \<open>ErrUnknownAncestor\<close> branch of \<open>recreateBlock\<close>).  The test after
  \<open>CalculateBlockState\<close> reads the named result \<open>err\<close>, which is nil there, so a nil block
  state is not rejected: the call goes on, and panics on the nil state (at the first
  transaction, or in the governance steps of a non-zero coinbase) or, with no transaction
  and a zero coinbase, returns a block with no error.  For every input, a return with a nil
  result and an error comes from the transaction loop, with a block state that was
  calculated, never from that test.
\<close>

theorem recreateBlock_nil_state_not_rejected:
  "(CalculateBlockState ch (ParentHash hdr) (Uint64 (Number hdr) - 1) = None \<longrightarrow>
      recreateBlock X e ch hdr txs =
        (if txs \<noteq> [] \<or> Coinbase hdr \<noteq> 0 then Panics
         else Returns
           (Some (NewSealResult
              (Some (NewBlock X (hdr\<lparr>GasUsed := 0, Bloom := 0, UncleHash := uncleHash X\<rparr>) [] [] []))
              None []),
            None, hdr\<lparr>GasUsed := 0, Bloom := 0, UncleHash := uncleHash X\<rparr>, e))) \<and>
   (\<forall>er h1 e1. recreateBlock X e ch hdr txs = Returns (None, Some er, h1, e1) \<longrightarrow>
      (\<exists>st. CalculateBlockState ch (ParentHash hdr) (Uint64 (Number hdr) - 1) = Some st \<and>
            applyTransactions X ch hdr 0 txs (GasLimit hdr, st, 0, []) = Inl er))"
proof (intro conjI impI allI)
  assume "CalculateBlockState ch (ParentHash hdr) (Uint64 (Number hdr) - 1) = None"
  then show "recreateBlock X e ch hdr txs =
        (if txs \<noteq> [] \<or> Coinbase hdr \<noteq> 0 then Panics
         else Returns
           (Some (NewSealResult
              (Some (NewBlock X (hdr\<lparr>GasUsed := 0, Bloom := 0, UncleHash := uncleHash X\<rparr>) [] [] []))
              None []),
            None, hdr\<lparr>GasUsed := 0, Bloom := 0, UncleHash := uncleHash X\<rparr>, e))"
    by (simp add: recreateBlock_def Let_def finalize_nil_state)
next
  fix er h1 e1
  assume r: "recreateBlock X e ch hdr txs = Returns (None, Some er, h1, e1)"
  show "\<exists>st. CalculateBlockState ch (ParentHash hdr) (Uint64 (Number hdr) - 1) = Some st \<and>
            applyTransactions X ch hdr 0 txs (GasLimit hdr, st, 0, []) = Inl er"
  proof (cases "CalculateBlockState ch (ParentHash hdr) (Uint64 (Number hdr) - 1)")
    case None
    with r show ?thesis
      by (simp add: recreateBlock_def Let_def finalize_nil_state split: if_splits)
  next
    case (Some st)
    with r show ?thesis
      by (auto simp: recreateBlock_def Let_def split: sum.splits outcome.splits prod.splits)
  qed
qed

text \<open>
  On the fixtures no state can be calculated: with a transaction the call panics, with
  none and a zero coinbase it returns a block and no error.
\<close>

theorem recreateBlock_nil_state_not_rejected_witness:
  "recreateBlock ex_ext ex_engine ex_chain ex_header
      [\<lparr>tx_Hash = 1, tx_IsConsensus = False, tx_payload = []\<rparr>] = Panics \<and>
   recreateBlock ex_ext ex_engine ex_chain (ex_header\<lparr>Coinbase := 0\<rparr>) [] =
     Returns
       (Some (NewSealResult
          (Some (NewBlock ex_ext
             (ex_header\<lparr>Coinbase := 0, GasUsed := 0, Bloom := 0, UncleHash := uncleHash ex_ext\<rparr>)
             [] [] []))
          None []),
        None, ex_header\<lparr>Coinbase := 0, GasUsed := 0, Bloom := 0, UncleHash := uncleHash ex_ext\<rparr>,
        ex_engine)"
proof -
  have n: "CalculateBlockState ex_chain h n = None" for h n
    by (simp add: ex_chain_def)
  from recreateBlock_nil_state_not_rejected [of ex_chain ex_header ex_ext ex_engine
      "[\<lparr>tx_Hash = 1, tx_IsConsensus = False, tx_payload = []\<rparr>]"] n
  have a: "recreateBlock ex_ext ex_engine ex_chain ex_header
      [\<lparr>tx_Hash = 1, tx_IsConsensus = False, tx_payload = []\<rparr>] = Panics"
    by simp
  from recreateBlock_nil_state_not_rejected [of ex_chain "ex_header\<lparr>Coinbase := 0\<rparr>" ex_ext
      ex_engine "[]"] n
  have b: "recreateBlock ex_ext ex_engine ex_chain (ex_header\<lparr>Coinbase := 0\<rparr>) [] =
     Returns
       (Some (NewSealResult
          (Some (NewBlock ex_ext
             (ex_header\<lparr>Coinbase := 0, GasUsed := 0, Bloom := 0, UncleHash := uncleHash ex_ext\<rparr>)
             [] [] []))
          None []),
        None, ex_header\<lparr>Coinbase := 0, GasUsed := 0, Bloom := 0, UncleHash := uncleHash ex_ext\<rparr>,
        ex_engine)"
    by simp
  from a b show ?thesis
    by simp
qed

section \<open>Properties of the header verifier\<close>

lemma VerifyHeader_static_reject:
  "GetHeader ch (ParentHash hdr) (Uint64 (Number hdr) - 1) = Some par \<Longrightarrow>
   \<not> passesBeforeGasBound P X e ch hdr par \<Longrightarrow>
   \<exists>err. VerifyHeader P X e ch hdr seal = Returns (Some err, e)"
  by (auto simp: VerifyHeader_def passesBeforeGasBound_def Let_def split: option.splits)

lemma VerifyHeader_gas_stage:
  "GetHeader ch (ParentHash hdr) (Uint64 (Number hdr) - 1) = Some par \<Longrightarrow>
   passesBeforeGasBound P X e ch hdr par \<Longrightarrow>
   gasLimitDiff (GasLimit par) (GasLimit hdr) \<ge> GasLimit par div GasLimitBoundDivisor P \<Longrightarrow>
   \<not> IsGen2Migration X hdr \<Longrightarrow> \<not> IsGen2Migration X par \<Longrightarrow>
   VerifyHeader P X e ch hdr seal =
     Returns (Some (ErrInvalidGasLimit (GasLimit hdr) (GasLimit par)
                (GasLimit par div GasLimitBoundDivisor P)), e)"
  by (simp add: VerifyHeader_def passesBeforeGasBound_def Let_def not_less)

lemma VerifyHeader_accept_bound:
  "GetHeader ch (ParentHash hdr) (Uint64 (Number hdr) - 1) = Some par \<Longrightarrow>
   VerifyHeader P X e ch hdr seal = Returns (None, e1) \<Longrightarrow>
   \<not> IsGen2Migration X hdr \<Longrightarrow> \<not> IsGen2Migration X par \<Longrightarrow>
   passesBeforeGasBound P X e ch hdr par \<and>
   gasLimitDiff (GasLimit par) (GasLimit hdr) < GasLimit par div GasLimitBoundDivisor P"
proof -
  assume g: "GetHeader ch (ParentHash hdr) (Uint64 (Number hdr) - 1) = Some par"
    and acc: "VerifyHeader P X e ch hdr seal = Returns (None, e1)"
    and m: "\<not> IsGen2Migration X hdr" "\<not> IsGen2Migration X par"
  have pass: "passesBeforeGasBound P X e ch hdr par"
    using VerifyHeader_static_reject [OF g, of P X e seal] acc by auto
  have "\<not> gasLimitDiff (GasLimit par) (GasLimit hdr) \<ge> GasLimit par div GasLimitBoundDivisor P"
    using VerifyHeader_gas_stage [OF g pass _ m, of seal] acc by auto
  with pass show ?thesis
    by simp
qed
lemma sint_small: "(w::uint64) \<le> 0x7fffffffffffffff \<Longrightarrow> sint w = uint w"
proof -
  assume "w \<le> 0x7fffffffffffffff"
  then have "uint w \<le> 0x7fffffffffffffff"
    by (simp add: word_le_def)
  moreover have "(0::int) \<le> uint w"
    by simp
  ultimately have "- 9223372036854775808 \<le> uint w \<and> uint w < 9223372036854775808"
    by linarith
  then have "signed_take_bit 63 (uint w) = uint w"
    by (simp add: signed_take_bit_int_eq_self_iff)
  then show ?thesis
    by (simp add: sint_uint)
qed

lemma gasLimitDiff_abs:
  assumes p: "(p::uint64) \<le> 0x7fffffffffffffff" and h: "(h::uint64) \<le> 0x7fffffffffffffff"
  shows "uint (gasLimitDiff p h) = \<bar>uint p - uint h\<bar>"
proof -
  have bp: "uint p \<le> 9223372036854775807" and bh: "uint h \<le> 9223372036854775807"
    using p h by (simp_all add: word_le_def)
  have "(0::int) \<le> uint p" and "(0::int) \<le> uint h"
    by simp_all
  with bp bh have "- 9223372036854775808 \<le> uint p - uint h \<and>
      uint p - uint h < 9223372036854775808"
    by linarith
  then have "signed_take_bit 63 (uint p - uint h) = uint p - uint h"
    by (simp add: signed_take_bit_int_eq_self_iff)
  then have sd: "sint (p - h) = uint p - uint h"
    using sint_small [OF p] sint_small [OF h] by (simp add: sint_word_ariths)
  show ?thesis
  proof (cases "uint p < uint h")
    case True
    have le: "p \<le> h" using True by (simp add: word_le_def)
    have "(p - h) * (- 1) = h - p" by simp
    moreover have "uint (h - p) = uint h - uint p"
      using le by (simp add: uint_sub_lem word_le_def)
    ultimately show ?thesis
      using True sd by (simp add: gasLimitDiff_def Let_def)
  next
    case False
    then have le: "h \<le> p" by (simp add: word_le_def)
    have "uint (p - h) = uint p - uint h"
      using le by (simp add: uint_sub_lem word_le_def)
    then show ?thesis
      using False sd by (simp add: gasLimitDiff_def Let_def)
  qed
qed

text \<open>
  C5, as the source has it.  The bound is waived for a Gen-2 migration block and also for
  the child of one.  For a header and a known parent of which neither is a migration block
  (the parent's gas limit within \<open>2^63 - 1\<close>, as \<open>VerifyHeader\<close> requires of every header
  it accepts): if \<open>VerifyHeader\<close> accepts the header then
  \<open>|header.GasLimit - parent.GasLimit| < parent.GasLimit / GasLimitBoundDivisor\<close>; and a
  header violating the bound is rejected, with the engine unchanged, by the gas-limit error
  \<open>ErrInvalidGasLimit\<close> when no earlier check rejects it.
\<close>

theorem VerifyHeader_gas_limit_bound:
  "GetHeader ch (ParentHash hdr) (Uint64 (Number hdr) - 1) = Some par \<Longrightarrow>
   \<not> IsGen2Migration X hdr \<Longrightarrow> \<not> IsGen2Migration X par \<Longrightarrow>
   GasLimit par \<le> 0x7fffffffffffffff \<Longrightarrow>
   (VerifyHeader P X e ch hdr seal = Returns (None, e1) \<longrightarrow>
      \<bar>uint (GasLimit hdr) - uint (GasLimit par)\<bar>
        < uint (GasLimit par) div uint (GasLimitBoundDivisor P)) \<and>
   (\<not> \<bar>uint (GasLimit hdr) - uint (GasLimit par)\<bar>
        < uint (GasLimit par) div uint (GasLimitBoundDivisor P) \<longrightarrow>
      (\<exists>err. VerifyHeader P X e ch hdr seal = Returns (Some err, e)) \<and>
      (passesBeforeGasBound P X e ch hdr par \<longrightarrow>
         VerifyHeader P X e ch hdr seal =
           Returns (Some (ErrInvalidGasLimit (GasLimit hdr) (GasLimit par)
                      (GasLimit par div GasLimitBoundDivisor P)), e)))"
proof -
  assume g: "GetHeader ch (ParentHash hdr) (Uint64 (Number hdr) - 1) = Some par"
    and m: "\<not> IsGen2Migration X hdr" "\<not> IsGen2Migration X par"
    and pb: "GasLimit par \<le> 0x7fffffffffffffff"
  let ?B = "\<bar>uint (GasLimit hdr) - uint (GasLimit par)\<bar>
        < uint (GasLimit par) div uint (GasLimitBoundDivisor P)"
  have conv: "?B \<longleftrightarrow>
      gasLimitDiff (GasLimit par) (GasLimit hdr) < GasLimit par div GasLimitBoundDivisor P"
    if "passesBeforeGasBound P X e ch hdr par"
  proof -
    from that have hb: "GasLimit hdr \<le> 0x7fffffffffffffff"
      by (simp add: passesBeforeGasBound_def)
    have "uint (gasLimitDiff (GasLimit par) (GasLimit hdr))
        = \<bar>uint (GasLimit par) - uint (GasLimit hdr)\<bar>"
      by (rule gasLimitDiff_abs [OF pb hb])
    then show ?thesis
      by (simp add: word_less_def uint_div abs_minus_commute)
  qed
  have a: "?B" if acc: "VerifyHeader P X e ch hdr seal = Returns (None, e1)"
    using VerifyHeader_accept_bound [OF g acc m] conv by simp
  have b: "\<exists>err. VerifyHeader P X e ch hdr seal = Returns (Some err, e)" if nb: "\<not> ?B"
  proof (cases "passesBeforeGasBound P X e ch hdr par")
    case True
    with nb conv have "gasLimitDiff (GasLimit par) (GasLimit hdr)
        \<ge> GasLimit par div GasLimitBoundDivisor P"
      by (simp add: not_less)
    from VerifyHeader_gas_stage [OF g True this m] show ?thesis
      by simp
  next
    case False
    from VerifyHeader_static_reject [OF g False] show ?thesis .
  qed
  have c: "VerifyHeader P X e ch hdr seal =
           Returns (Some (ErrInvalidGasLimit (GasLimit hdr) (GasLimit par)
                      (GasLimit par div GasLimitBoundDivisor P)), e)"
    if nb: "\<not> ?B" and pass: "passesBeforeGasBound P X e ch hdr par"
  proof -
    from nb conv pass have "gasLimitDiff (GasLimit par) (GasLimit hdr)
        \<ge> GasLimit par div GasLimitBoundDivisor P"
      by (simp add: not_less)
    from VerifyHeader_gas_stage [OF g pass this m] show ?thesis .
  qed
  from a b c show ?thesis
    by blast
qed

lemma VerifyHeader_tail:
  "GetHeader ch (ParentHash hdr) (Uint64 (Number hdr) - 1) = Some par \<Longrightarrow>
   reachesSealStage P X e ch hdr par \<Longrightarrow>
   VerifyHeader P X e ch hdr seal =
     (case (if seal
            then (case VerifySeal X e ch hdr of
                    Panics \<Rightarrow> Panics
                  | Returns (Some err) \<Rightarrow> Returns (Some err)
                  | Returns None \<Rightarrow> Returns (verifyPoSHash X e ch hdr))
            else Returns None) of
        Panics \<Rightarrow> Panics
      | Returns (Some err) \<Rightarrow> Returns (Some err, e)
      | Returns None \<Rightarrow>
         (case VerifyForkHashes X ch hdr False of
            Some err \<Rightarrow> Returns (Some err, e)
          | None \<Rightarrow>
             if seal \<and> GetHeader ch (HeaderHash X hdr) (Uint64 (Number hdr)) = None
             then Returns (checkDoS P (HeaderHash X) e ch hdr par)
             else Returns (None, e)))"
proof -
  assume g: "GetHeader ch (ParentHash hdr) (Uint64 (Number hdr) - 1) = Some par"
    and r: "reachesSealStage P X e ch hdr par"
  have f1: "\<not> (of_nat (length (Extra hdr)) > MaximumExtraDataSize P \<and> \<not> IsGen2Migration X hdr)"
    and f2: "\<not> (IsGen2Migration X hdr \<and> Coinbase hdr \<noteq> Nuclear_MigrationContract)"
    and f3: "checkTime X e hdr (calcTimeTarget X e ch par) = None"
    and f4: "\<not> MixDigest hdr \<noteq> calcPoSModifier X e ch (Time hdr) par"
    and f5: "\<not> Difficulty hdr
               \<noteq> calcPoSDifficulty X e ch (Time hdr) par (calcTimeTarget X e ch par)"
    and f6: "\<not> GasLimit hdr > 0x7fffffffffffffff"
    and f7: "\<not> (GasUsed hdr > GasLimit hdr \<and> \<not> IsGen2Migration X hdr)"
    and f8: "\<not> (gasLimitDiff (GasLimit par) (GasLimit hdr)
                  \<ge> GasLimit par div GasLimitBoundDivisor P \<and>
                \<not> IsGen2Migration X hdr \<and> \<not> IsGen2Migration X par)"
    and f9: "\<not> GasLimit hdr < MinGasLimit P"
    and f10: "\<not> Number hdr - Number par \<noteq> 1"
    using r unfolding reachesSealStage_def passesBeforeGasBound_def not_less [symmetric]
    by blast+
  show ?thesis
    unfolding VerifyHeader_def Let_def
    by (simp only: if_not_P [OF f1] if_not_P [OF f2] if_not_P [OF f4] if_not_P [OF f5]
        if_not_P [OF f6] if_not_P [OF f7] if_not_P [OF f8] if_not_P [OF f9] if_not_P [OF f10]
        g f3 option.case)
qed

lemma VerifySeal_returns: "VerifySeal X e ch hdr \<noteq> Panics"
  by (simp add: VerifySeal_def Let_def case_prod_beta snapshot_apply_revert_proj
      split: option.splits sum.splits)

text \<open>
  C6, as the source has it.  For a header that gets past the earlier checks of
  \<open>VerifyHeader\<close>: \<open>VerifySeal\<close> and then \<open>verifyPoSHash\<close> are performed exactly when \<open>seal\<close>
  is true, in that order; \<open>VerifyForkHashes\<close> comes next and is performed whether or not
  \<open>seal\<close> is true; \<open>checkDoS\<close> is invoked only after all of them succeeded, and only when
  \<open>seal\<close> is true and the header is not in the canonical store.  When \<open>seal\<close> is false the
  result is the verdict of \<open>VerifyForkHashes\<close> alone: neither \<open>VerifySeal\<close> nor
  \<open>verifyPoSHash\<close> nor \<open>checkDoS\<close> runs, and the engine is unchanged.
\<close>

theorem VerifyHeader_seal_stage:
  "GetHeader ch (ParentHash hdr) (Uint64 (Number hdr) - 1) = Some par \<Longrightarrow>
   reachesSealStage P X e ch hdr par \<Longrightarrow>
   (\<not> seal \<longrightarrow>
      VerifyHeader P X e ch hdr seal =
        (case VerifyForkHashes X ch hdr False of
           Some err \<Rightarrow> Returns (Some err, e)
         | None \<Rightarrow> Returns (None, e))) \<and>
   (seal \<longrightarrow>
      VerifySeal X e ch hdr \<noteq> Panics \<and>
      (\<forall>err. VerifySeal X e ch hdr = Returns (Some err) \<longrightarrow>
         VerifyHeader P X e ch hdr seal = Returns (Some err, e)) \<and>
      (VerifySeal X e ch hdr = Returns None \<longrightarrow>
         (\<forall>err. verifyPoSHash X e ch hdr = Some err \<longrightarrow>
            VerifyHeader P X e ch hdr seal = Returns (Some err, e)) \<and>
         (verifyPoSHash X e ch hdr = None \<longrightarrow>
            (\<forall>err. VerifyForkHashes X ch hdr False = Some err \<longrightarrow>
               VerifyHeader P X e ch hdr seal = Returns (Some err, e)) \<and>
            (VerifyForkHashes X ch hdr False = None \<longrightarrow>
               VerifyHeader P X e ch hdr seal =
                 (if GetHeader ch (HeaderHash X hdr) (Uint64 (Number hdr)) = None
                  then Returns (checkDoS P (HeaderHash X) e ch hdr par)
                  else Returns (None, e))))))"
proof -
  assume g: "GetHeader ch (ParentHash hdr) (Uint64 (Number hdr) - 1) = Some par"
    and r: "reachesSealStage P X e ch hdr par"
  note t = VerifyHeader_tail [OF g r, of seal]
  have a: "VerifyHeader P X e ch hdr seal =
        (case VerifyForkHashes X ch hdr False of
           Some err \<Rightarrow> Returns (Some err, e)
         | None \<Rightarrow> Returns (None, e))" if "\<not> seal"
    using t that by simp
  have b: "VerifyHeader P X e ch hdr seal = Returns (Some err, e)"
    if "seal" "VerifySeal X e ch hdr = Returns (Some err)" for err
    using t that by simp
  have c: "VerifyHeader P X e ch hdr seal = Returns (Some err, e)"
    if "seal" "VerifySeal X e ch hdr = Returns None" "verifyPoSHash X e ch hdr = Some err" for err
    using t that by simp
  have d: "VerifyHeader P X e ch hdr seal = Returns (Some err, e)"
    if "seal" "VerifySeal X e ch hdr = Returns None" "verifyPoSHash X e ch hdr = None"
      "VerifyForkHashes X ch hdr False = Some err" for err
    using t that by simp
  have f: "VerifyHeader P X e ch hdr seal =
                 (if GetHeader ch (HeaderHash X hdr) (Uint64 (Number hdr)) = None
                  then Returns (checkDoS P (HeaderHash X) e ch hdr par)
                  else Returns (None, e))"
    if "seal" "VerifySeal X e ch hdr = Returns None" "verifyPoSHash X e ch hdr = None"
      "VerifyForkHashes X ch hdr False = None"
    using t that by simp
  from a b c d f VerifySeal_returns [of X e ch hdr] show ?thesis
    by blast
qed

subsection \<open>The header verifier on the fixtures\<close>

lemma ex_parent_number: "Uint64 2 - 1 = (1::uint64)" "Uint64 6 - 1 = (5::uint64)"
  by (simp_all add: Uint64_def)

lemma ex_get_parent:
  "GetHeader ex_chain (ParentHash ex_header) (Uint64 (Number ex_header) - 1) = Some ex_parent"
  "GetHeader ex_chain (ParentHash (ex_header\<lparr>GasLimit := g\<rparr>))
     (Uint64 (Number (ex_header\<lparr>GasLimit := g\<rparr>)) - 1) = Some ex_parent"
  by (simp_all add: ex_chain_def ex_header_def ex_parent_number)

lemma ex_get_parent5:
  "GetHeader ex_chain5 (ParentHash (ex_header6\<lparr>GasLimit := g\<rparr>))
     (Uint64 (Number (ex_header6\<lparr>GasLimit := g\<rparr>)) - 1) = Some ex_parent5"
  by (simp add: ex_chain5_def ex_header6_def ex_header_def ex_parent_number)

lemma ex_migration:
  "IsGen2Migration ex_ext h = (Number h = 1)"
  "IsGen2Migration ex_ext_forkfail h = (Number h = 1)"
  by (simp_all add: ex_ext_def ex_ext_forkfail_def)

lemma ex_reaches:
  "reachesSealStage ex_params ex_ext ex_engine ex_chain ex_header ex_parent"
  "reachesSealStage ex_params ex_ext_forkfail ex_engine ex_chain ex_header ex_parent"
  "reachesSealStage ex_params ex_ext ex_engine ex_chain (ex_header\<lparr>GasLimit := 16000000\<rparr>) ex_parent"
  by (simp_all add: reachesSealStage_def passesBeforeGasBound_def ex_params_def ex_ext_def
      ex_ext_forkfail_def ex_header_def ex_parent_def)

lemma ex_diff_near:
  "gasLimitDiff 8000000 8001000 < (8000000::uint64) div 1024"
  "\<not> gasLimitDiff 8000000 16000000 < (8000000::uint64) div 1024"
  by (simp_all add: word_less_def gasLimitDiff_abs uint_div)

lemma ex_reaches5:
  "reachesSealStage ex_params ex_ext ex_engine ex_chain5 (ex_header6\<lparr>GasLimit := 8001000\<rparr>) ex_parent5"
  using ex_diff_near(1)
  by (simp add: reachesSealStage_def passesBeforeGasBound_def ex_params_def ex_ext_def
      ex_header6_def ex_parent5_def ex_header_def ex_parent_def not_le)

lemma ex_passes5:
  "passesBeforeGasBound ex_params ex_ext ex_engine ex_chain5 (ex_header6\<lparr>GasLimit := 16000000\<rparr>) ex_parent5"
  by (simp add: passesBeforeGasBound_def ex_params_def ex_ext_def ex_header6_def ex_header_def)

lemma ex_fork_verdict:
  "VerifyForkHashes ex_ext c h u = None"
  "VerifyForkHashes ex_ext_forkfail c h u = Some (ExternalError ''fork hash'')"
  by (simp_all add: ex_ext_def ex_ext_forkfail_def)

text \<open>
  C6 as stated fails: with \<open>seal\<close> false the header is accepted or rejected according to
  the verdict of \<open>VerifyForkHashes\<close>, so that check is performed.
\<close>

theorem VerifyHeader_fork_hashes_counterexample:
  "VerifyHeader ex_params ex_ext_forkfail ex_engine ex_chain ex_header False
     = Returns (Some (ExternalError ''fork hash''), ex_engine) \<and>
   VerifyHeader ex_params ex_ext ex_engine ex_chain ex_header False = Returns (None, ex_engine)"
  using VerifyHeader_tail [OF ex_get_parent(1) ex_reaches(1), of False]
    VerifyHeader_tail [OF ex_get_parent(1) ex_reaches(2), of False]
  by (simp add: ex_fork_verdict)

text \<open>
  The seal stage on the fixtures: without \<open>seal\<close> the fork-hash verdict decides; with
  \<open>seal\<close> the error of \<open>VerifySeal\<close> (no state at the parent) comes first.
\<close>

theorem VerifyHeader_seal_stage_witness:
  "VerifyHeader ex_params ex_ext ex_engine ex_chain ex_header False = Returns (None, ex_engine) \<and>
   VerifyHeader ex_params ex_ext_forkfail ex_engine ex_chain ex_header False
     = Returns (Some (ExternalError ''fork hash''), ex_engine) \<and>
   VerifyHeader ex_params ex_ext ex_engine ex_chain ex_header True
     = Returns (Some ErrMissingState, ex_engine)"
proof -
  have vs: "VerifySeal ex_ext ex_engine ex_chain ex_header = Returns (Some ErrMissingState)"
    by (simp add: VerifySeal_def ex_chain_def)
  from VerifyHeader_seal_stage [OF ex_get_parent(1) ex_reaches(1), of False]
  have a: "VerifyHeader ex_params ex_ext ex_engine ex_chain ex_header False = Returns (None, ex_engine)"
    by (simp add: ex_fork_verdict)
  from VerifyHeader_seal_stage [OF ex_get_parent(1) ex_reaches(2), of False]
  have b: "VerifyHeader ex_params ex_ext_forkfail ex_engine ex_chain ex_header False
     = Returns (Some (ExternalError ''fork hash''), ex_engine)"
    by (simp add: ex_fork_verdict)
  from VerifyHeader_seal_stage [OF ex_get_parent(1) ex_reaches(1), of True] vs
  have c: "VerifyHeader ex_params ex_ext ex_engine ex_chain ex_header True
     = Returns (Some ErrMissingState, ex_engine)"
    by simp
  from a b c show ?thesis
    by simp
qed

text \<open>
  C5 as stated fails: the child of a migration block, itself no migration block, is
  accepted with twice the gas limit of its parent.
\<close>

theorem VerifyHeader_gas_limit_bound_counterexample:
  "VerifyHeader ex_params ex_ext ex_engine ex_chain (ex_header\<lparr>GasLimit := 16000000\<rparr>) False
     = Returns (None, ex_engine) \<and>
   GetHeader ex_chain (ParentHash (ex_header\<lparr>GasLimit := 16000000\<rparr>))
     (Uint64 (Number (ex_header\<lparr>GasLimit := 16000000\<rparr>)) - 1) = Some ex_parent \<and>
   \<not> IsGen2Migration ex_ext (ex_header\<lparr>GasLimit := 16000000\<rparr>) \<and>
   \<not> \<bar>uint (GasLimit (ex_header\<lparr>GasLimit := 16000000\<rparr>)) - uint (GasLimit ex_parent)\<bar>
       < uint (GasLimit ex_parent) div uint (GasLimitBoundDivisor ex_params)"
proof -
  from VerifyHeader_tail [OF ex_get_parent(2) ex_reaches(3), of False]
  have a: "VerifyHeader ex_params ex_ext ex_engine ex_chain (ex_header\<lparr>GasLimit := 16000000\<rparr>) False
     = Returns (None, ex_engine)"
    by (simp add: ex_fork_verdict)
  have b: "\<not> IsGen2Migration ex_ext (ex_header\<lparr>GasLimit := 16000000\<rparr>)"
    by (simp add: ex_migration ex_header_def)
  have c: "\<not> \<bar>uint (GasLimit (ex_header\<lparr>GasLimit := 16000000\<rparr>)) - uint (GasLimit ex_parent)\<bar>
       < uint (GasLimit ex_parent) div uint (GasLimitBoundDivisor ex_params)"
    by (simp add: ex_parent_def ex_header_def ex_params_def)
  from a b c ex_get_parent(2) [of 16000000] show ?thesis
    by simp
qed

text \<open>
  Away from the migration block: a header within the bound is accepted and satisfies it, a
  header with twice the gas limit of its parent is rejected with \<open>ErrInvalidGasLimit\<close>.
\<close>

theorem VerifyHeader_gas_limit_bound_witness:
  "\<bar>uint (GasLimit (ex_header6\<lparr>GasLimit := 8001000\<rparr>)) - uint (GasLimit ex_parent5)\<bar>
     < uint (GasLimit ex_parent5) div uint (GasLimitBoundDivisor ex_params) \<and>
   VerifyHeader ex_params ex_ext ex_engine ex_chain5 (ex_header6\<lparr>GasLimit := 16000000\<rparr>) True
     = Returns (Some (ErrInvalidGasLimit 16000000 8000000 (8000000 div 1024)), ex_engine)"
proof -
  have m6: "\<not> IsGen2Migration ex_ext (ex_header6\<lparr>GasLimit := g\<rparr>)" for g
    by (simp add: ex_migration ex_header6_def)
  have m5: "\<not> IsGen2Migration ex_ext ex_parent5"
    by (simp add: ex_migration ex_parent5_def)
  have pb: "GasLimit ex_parent5 \<le> 0x7fffffffffffffff"
    by (simp add: ex_parent5_def ex_parent_def ex_header_def)
  from VerifyHeader_tail [OF ex_get_parent5 ex_reaches5, of False]
  have acc: "VerifyHeader ex_params ex_ext ex_engine ex_chain5 (ex_header6\<lparr>GasLimit := 8001000\<rparr>) False
     = Returns (None, ex_engine)"
    by (simp add: ex_fork_verdict)
  from VerifyHeader_gas_limit_bound [OF ex_get_parent5 [of 8001000] m6 m5 pb,
      where P = ex_params and e = ex_engine and seal = False and ?e1.0 = ex_engine] acc
  have a: "\<bar>uint (GasLimit (ex_header6\<lparr>GasLimit := 8001000\<rparr>)) - uint (GasLimit ex_parent5)\<bar>
     < uint (GasLimit ex_parent5) div uint (GasLimitBoundDivisor ex_params)"
    by simp
  have nb: "\<not> \<bar>uint (GasLimit (ex_header6\<lparr>GasLimit := 16000000\<rparr>)) - uint (GasLimit ex_parent5)\<bar>
       < uint (GasLimit ex_parent5) div uint (GasLimitBoundDivisor ex_params)"
    by (simp add: ex_parent5_def ex_parent_def ex_header_def ex_params_def)
  have vals: "GasLimit ex_parent5 = 8000000" "GasLimitBoundDivisor ex_params = 1024"
    by (simp_all add: ex_parent5_def ex_parent_def ex_header_def ex_params_def)
  from VerifyHeader_gas_limit_bound [OF ex_get_parent5 [of 16000000] m6 m5 pb,
      where P = ex_params and e = ex_engine and seal = True and ?e1.0 = ex_engine] nb ex_passes5
  have b: "VerifyHeader ex_params ex_ext ex_engine ex_chain5 (ex_header6\<lparr>GasLimit := 16000000\<rparr>) True
     = Returns (Some (ErrInvalidGasLimit 16000000 8000000 (8000000 div 1024)), ex_engine)"
    by (simp add: vals)
  from a b show ?thesis
    by simp
qed

section \<open>Properties of Finalize\<close>





subsection \<open>Finalize on the fixtures\<close>










end
